theory Spec2Isabelle
  imports Complex_Main "HOL-Library.Sublist" "HOL-Library.Multiset"
begin

section \<open>The intake service (server.js)\<close>

subsection \<open>JavaScript values and strings\<close>

text \<open>
  A field of the JSON body is absent (\<open>undefined\<close>) or holds any JSON value: \<open>null\<close>, a
  boolean, a number, a string, an array or an object. The handler never looks into an
  object, so an object carries nothing. A string is a \<open>string\<close>; the methods of
  \<open>String.prototype\<close> whose result depends on the Unicode tables or on the length of a
  string in code units are taken from the runtime (see below).
\<close>

datatype jsval =
    Undefined
  | Null
  | Bool bool
  | Num real
  | Str string
  | Arr "jsval list"
  | Obj

text \<open>
  Truthiness, as \<open>!x\<close>, \<open>x && y\<close> and \<open>x || y\<close> read it: \<open>undefined\<close>, \<open>null\<close>,
  \<open>false\<close>, \<open>0\<close> and the empty string are falsy, every array and object is truthy.
\<close>

fun truthy :: "jsval \<Rightarrow> bool" where
  "truthy Undefined = False"
| "truthy Null = False"
| "truthy (Bool b) = b"
| "truthy (Num x) = (x \<noteq> 0)"
| "truthy (Str s) = (s \<noteq> [])"
| "truthy (Arr xs) = True"
| "truthy Obj = True"

text \<open>\<open>x || y\<close>\<close>

definition js_or :: "jsval \<Rightarrow> jsval \<Rightarrow> jsval" where
  "js_or x y = (if truthy x then x else y)"

text \<open>
  The part of the runtime the model takes as given: \<open>String.prototype.toLowerCase\<close>
  (Unicode case mapping), \<open>String.prototype.substring\<close> (which counts UTF-16 code
  units) and the text of a number.
\<close>

record runtime =
  toLowerCase :: "string \<Rightarrow> string"
  substring :: "string \<Rightarrow> nat \<Rightarrow> nat \<Rightarrow> string"
  numberToString :: "real \<Rightarrow> string"

fun join_comma :: "string list \<Rightarrow> string" where
  "join_comma [] = []"
| "join_comma [s] = s"
| "join_comma (s # t # ss) = s @ '','' @ join_comma (t # ss)"

text \<open>
  A value inside a template literal, \<open>`${x}`\<close>: the string itself, the name of
  \<open>undefined\<close>, \<open>null\<close>, \<open>true\<close> and \<open>false\<close>, the text of a number, the elements of an
  array joined by commas (\<open>null\<close> and \<open>undefined\<close> elements give nothing), and
  \<open>[object Object]\<close> for an object.
\<close>

fun template :: "'a runtime_scheme \<Rightarrow> jsval \<Rightarrow> string" where
  "template rt (Str s) = s"
| "template rt Undefined = ''undefined''"
| "template rt Null = ''null''"
| "template rt (Bool b) = (if b then ''true'' else ''false'')"
| "template rt (Num x) = numberToString rt x"
| "template rt (Arr xs) =
     join_comma (map (\<lambda>x. if x = Undefined \<or> x = Null then [] else template rt x) xs)"
| "template rt Obj = ''[object Object]''"

text \<open>\<open>s.includes(sub)\<close> on a string: \<open>sub\<close> occurs in \<open>s\<close> as a contiguous run.\<close>

fun includes_str :: "string \<Rightarrow> string \<Rightarrow> bool" where
  "includes_str [] sub = (sub = [])"
| "includes_str (c # cs) sub = (prefix sub (c # cs) \<or> includes_str cs sub)"

text \<open>\<open>s.endsWith(suf)\<close>\<close>

definition endsWith :: "string \<Rightarrow> string \<Rightarrow> bool" where
  "endsWith s suf = suffix suf s"

text \<open>What a thrown JavaScript error carries is its message.\<close>

type_synonym js_error = string

definition not_a_function :: "string \<Rightarrow> js_error" where
  "not_a_function name = name @ '' is not a function''"

definition cannot_read :: "string \<Rightarrow> string \<Rightarrow> js_error" where
  "cannot_read of_what property =
     ''Cannot read properties of '' @ of_what @ '' (reading '' @ [CHR 0x27] @ property
       @ [CHR 0x27] @ '')''"

text \<open>
  \<open>url.includes(sub)\<close> on a value: a string has the method above, an array has
  \<open>Array.prototype.includes\<close> (one of its elements is the string \<open>sub\<close>), a number, a
  boolean and an object have no such method and the call throws a TypeError, as does
  reading the property of \<open>undefined\<close> or \<open>null\<close>.
\<close>

fun url_includes :: "jsval \<Rightarrow> string \<Rightarrow> js_error + bool" where
  "url_includes (Str s) sub = Inr (includes_str s sub)"
| "url_includes (Arr xs) sub = Inr (Str sub \<in> set xs)"
| "url_includes Undefined sub = Inl (cannot_read ''undefined'' ''includes'')"
| "url_includes Null sub = Inl (cannot_read ''null'' ''includes'')"
| "url_includes (Bool b) sub = Inl (not_a_function ''url.includes'')"
| "url_includes (Num x) sub = Inl (not_a_function ''url.includes'')"
| "url_includes Obj sub = Inl (not_a_function ''url.includes'')"

subsection \<open>deriveTypeFromUrl\<close>

text \<open>
  A falsy url gives \<open>text\<close>. Otherwise the function calls \<open>url.toLowerCase()\<close>, which
  only a string has: for a truthy value that is not a string the call throws a
  TypeError.
\<close>

definition deriveTypeFromUrl :: "'a runtime_scheme \<Rightarrow> jsval \<Rightarrow> js_error + string" where
  "deriveTypeFromUrl rt url =
     (if \<not> truthy url then Inr ''text''
      else case url of
        Str s \<Rightarrow>
          (let u = toLowerCase rt s in
           Inr (if includes_str u ''youtube.com'' \<or> includes_str u ''youtu.be'' then ''youtube''
                else if includes_str u ''linkedin.com'' then ''linkedin''
                else if includes_str u ''x.com'' \<or> includes_str u ''twitter.com'' then ''twitter''
                else if includes_str u ''reddit.com'' then ''reddit''
                else if includes_str u ''quora.com'' then ''quora''
                else if includes_str u ''instagram.com'' then ''instagram''
                else if includes_str u ''github.com'' then ''github''
                else if endsWith u ''.pdf'' then ''pdf''
                else ''article''))
      | _ \<Rightarrow> Inl (not_a_function ''url.toLowerCase''))"

text \<open>
  The platform rules of \<open>deriveTypeFromUrl\<close> as a table, in the order the function tests
  them: the substrings of a rule, and the type it gives.
\<close>

definition platform_rules :: "(string list \<times> string) list" where
  "platform_rules =
     [([''youtube.com'', ''youtu.be''], ''youtube''),
      ([''linkedin.com''], ''linkedin''),
      ([''x.com'', ''twitter.com''], ''twitter''),
      ([''reddit.com''], ''reddit''),
      ([''quora.com''], ''quora''),
      ([''instagram.com''], ''instagram''),
      ([''github.com''], ''github'')]"

text \<open>The first rule of the table one of whose substrings occurs in \<open>u\<close>.\<close>

definition first_platform :: "string \<Rightarrow> string option" where
  "first_platform u =
     map_option snd (find (\<lambda>(subs, t). list_ex (includes_str u) subs) platform_rules)"

subsection \<open>External collaborators of the handler\<close>

text \<open>
  The data of a Firecrawl scrape are the markdown and the page metadata, which the
  handler only passes on.
\<close>

record scrape_data =
  markdown :: jsval
  page_metadata :: string

record firecrawl_response =
  success :: bool
  data :: "scrape_data option"

text \<open>
  The JSON object the language model returns, with the keys the system prompt asks for;
  a key the model leaves out is \<open>Undefined\<close>.
\<close>

record analysis =
  title :: jsval
  summary :: jsval
  keywords' :: "string list"
  emotions :: "string list"
  timestamp :: jsval
  source_url_found :: jsval

text \<open>
  The environment of one request: the runtime, the Firecrawl key of \<open>process.env\<close>, the
  HTTP call to Firecrawl and the chat call to Mistral (each either throws or answers),
  and the clock.
\<close>

record env = runtime +
  FIRECRAWL_API_KEY :: jsval
  axios_post :: "jsval \<Rightarrow> js_error + firecrawl_response"
  mistral_chat :: "string \<Rightarrow> js_error + analysis"
  now :: string

text \<open>
  \<open>scrapeWithFirecrawl\<close>: a missing key throws before the request; an error of the
  request is rethrown; an answer without \<open>success\<close> or without \<open>data\<close> throws; logging
  \<open>markdown.length\<close> throws when the markdown is \<open>undefined\<close> or \<open>null\<close>.
\<close>

definition scrapeWithFirecrawl :: "env \<Rightarrow> jsval \<Rightarrow> js_error + scrape_data" where
  "scrapeWithFirecrawl e url =
     (if \<not> truthy (FIRECRAWL_API_KEY e) then Inl ''Missing FIRECRAWL_API_KEY''
      else case axios_post e url of
          Inl err \<Rightarrow> Inl err
        | Inr response \<Rightarrow>
            (case data response of
               Some d \<Rightarrow>
                 if success response
                 then (case markdown d of
                         Undefined \<Rightarrow> Inl (cannot_read ''undefined'' ''length'')
                       | Null \<Rightarrow> Inl (cannot_read ''null'' ''length'')
                       | _ \<Rightarrow> Inr d)
                 else Inl ''Firecrawl returned unsuccessful response''
             | None \<Rightarrow> Inl ''Firecrawl returned unsuccessful response''))"

text \<open>
  \<open>analyzeContent\<close> sends \<open>text.substring(0, 50000)\<close> to the model; a text that is not a
  string has no \<open>substring\<close>, and the TypeError is rethrown.
\<close>

definition analyzeContent :: "env \<Rightarrow> jsval \<Rightarrow> js_error + analysis" where
  "analyzeContent e txt =
     (case txt of
        Str s \<Rightarrow> mistral_chat e (substring e s 0 50000)
      | Undefined \<Rightarrow> Inl (cannot_read ''undefined'' ''substring'')
      | Null \<Rightarrow> Inl (cannot_read ''null'' ''substring'')
      | _ \<Rightarrow> Inl (not_a_function ''text.substring''))"

subsection \<open>The Firestore collection and the handler's state\<close>

text \<open>
  The memory the handler stores: the keys of the analysis, then the keys the handler sets
  (which win over keys of the analysis with the same name).
\<close>

record memory = analysis +
  url :: jsval
  original_url :: jsval
  firecrawl_metadata :: string
  full_content :: string
  created_at :: string
  memory_type :: string
  favorite :: bool

text \<open>
  The collection \<open>memories\<close> is a list of entries, each under its document id.
  \<open>collection.add\<close> stores the entry under an id that Firestore generates, different
  from every id in use; the model takes the successor of the largest id.
\<close>

type_synonym collection = "(nat \<times> memory) list"

definition fresh_id :: "collection \<Rightarrow> nat" where
  "fresh_id c = Suc (foldr max (map fst c) 0)"

definition add :: "collection \<Rightarrow> memory \<Rightarrow> nat \<times> collection" where
  "add c m = (fresh_id c, c @ [(fresh_id c, m)])"

text \<open>The number of stored entries whose \<open>url\<close> is the given address.\<close>

definition entries_for :: "jsval \<Rightarrow> collection \<Rightarrow> nat" where
  "entries_for u c = length (filter (\<lambda>(i, m). url m = u) c)"

text \<open>
  What a request can touch: the database handle \<open>db\<close> (absent when Firebase was not
  initialised) and, to speak about the calls a request makes, the trace of calls to the
  scraper, the analyser and the database.
\<close>

datatype call = Scrape jsval | Analyze jsval | Save nat

record state =
  db :: "collection option"
  trace :: "call list"

text \<open>The number of stored entries for an address in a state.\<close>

definition stored_entries :: "jsval \<Rightarrow> state \<Rightarrow> nat" where
  "stored_entries u st = (case db st of None \<Rightarrow> 0 | Some c \<Rightarrow> entries_for u c)"

datatype response_body =
    ErrorBody string
  | Saved nat memory
  | NotSaved memory string

record response =
  status :: nat
  body :: response_body

text \<open>
  The three fields the handler takes from the JSON body that \<open>express.json()\<close> has
  parsed; a field the body does not have is \<open>Undefined\<close>.
\<close>

record request_body =
  body_url :: jsval
  body_text :: jsval
  body_title :: jsval

subsection \<open>The handler of POST /receive_data\<close>

definition nl :: string where
  "nl = [CHR 0x0A]"

text \<open>
  \<open>url && (url.includes('localhost') || url.includes('127.0.0.1'))\<close>: falsy for a falsy
  url; for a truthy url the first call of \<open>includes\<close> decides whether the expression
  throws.
\<close>

definition isLocal :: "jsval \<Rightarrow> js_error + bool" where
  "isLocal u =
     (if \<not> truthy u then Inr False
      else case url_includes u ''localhost'' of
          Inl err \<Rightarrow> Inl err
        | Inr True \<Rightarrow> Inr True
        | Inr False \<Rightarrow> url_includes u ''127.0.0.1'')"

text \<open>
  Steps 3 and 4: the content to analyse. A url that is present and not local is scraped;
  when the scrape throws, the provided text is used if there is one, and the error is
  rethrown otherwise. Without a url, or with a local one, the provided text is used.
\<close>

definition gather :: "env \<Rightarrow> state \<Rightarrow> request_body \<Rightarrow> (js_error + jsval) \<times> state" where
  "gather e st b =
     (let u = body_url b; txt = body_text b; ttl = body_title b in
      case isLocal u of
        Inl err \<Rightarrow> (Inl err, st)
      | Inr local \<Rightarrow>
          if truthy u \<and> \<not> local then
            (case scrapeWithFirecrawl e u of
               Inr scrapeResult \<Rightarrow>
                 (let contentToAnalyze = js_or (markdown scrapeResult) (Str []) in
                  Inr (if truthy ttl \<or> truthy txt
                       then Str (''User Note/Title: '' @ template e ttl @ '' '' @ template e txt
                                 @ nl @ nl @ ''Scraped Content:'' @ nl
                                 @ template e contentToAnalyze)
                       else contentToAnalyze))
             | Inl scrapeErr \<Rightarrow>
                 if truthy txt
                 then Inr (Str (''(Scrape Failed for '' @ template e u @ '') User Note: ''
                                @ template e ttl @ nl @ nl @ template e txt))
                 else Inl scrapeErr,
             st\<lparr>trace := trace st @ [Scrape u]\<rparr>)
          else
            (Inr (Str (''Title: '' @ template e (js_or ttl (Str ''No Title'')) @ nl
                       @ ''Content: '' @ template e (js_or txt (Str []))
                       @ (if \<not> truthy txt \<and> local
                          then nl @ ''(No text content provided for local URL)'' else []))),
             st))"

text \<open>
  Step 6: the memory built from the analysis and the request. \<open>deriveTypeFromUrl\<close> may
  throw, and then no memory is built.
\<close>

definition finalMemory :: "env \<Rightarrow> request_body \<Rightarrow> analysis \<Rightarrow> js_error + memory" where
  "finalMemory e b analysisData =
     (let finalUrl = js_or (body_url b) Null in
      case deriveTypeFromUrl e finalUrl of
        Inl err \<Rightarrow> Inl err
      | Inr derived \<Rightarrow>
          Inr \<lparr> title = js_or (title analysisData)
                          (js_or (body_title b) (Str ''Untitled Memory'')),
                summary = summary analysisData,
                keywords' = keywords' analysisData,
                emotions = emotions analysisData,
                timestamp = timestamp analysisData,
                source_url_found = source_url_found analysisData,
                url = finalUrl,
                original_url = finalUrl,
                firecrawl_metadata = [],
                full_content = [],
                created_at = now e,
                memory_type = (if derived = [] then ''note'' else derived),
                favorite = False \<rparr>)"

text \<open>
  The handler: 400 without url and text; otherwise, inside \<open>try\<close>, gather the content,
  analyse it, build the memory and save it when the database is there. An error thrown
  on the way gives 500 with its message.
\<close>

definition receive_data :: "env \<Rightarrow> state \<Rightarrow> request_body \<Rightarrow> response \<times> state" where
  "receive_data e st b =
     (if \<not> truthy (body_url b) \<and> \<not> truthy (body_text b)
      then (\<lparr>status = 400, body = ErrorBody ''Either URL or text content is required''\<rparr>, st)
      else
        (case gather e st b of
           (Inl err, st1) \<Rightarrow> (\<lparr>status = 500, body = ErrorBody err\<rparr>, st1)
         | (Inr contentToAnalyze, st1) \<Rightarrow>
             (let arg = js_or contentToAnalyze (Str ''No content found'');
                  st2 = st1\<lparr>trace := trace st1 @ [Analyze arg]\<rparr> in
              case analyzeContent e arg of
                Inl err \<Rightarrow> (\<lparr>status = 500, body = ErrorBody err\<rparr>, st2)
              | Inr analysisData \<Rightarrow>
                  (case finalMemory e b analysisData of
                     Inl err \<Rightarrow> (\<lparr>status = 500, body = ErrorBody err\<rparr>, st2)
                   | Inr m \<Rightarrow>
                       (case db st2 of
                          Some c \<Rightarrow>
                            (let (docRef, c') = add c m in
                             (\<lparr>status = 200, body = Saved docRef m\<rparr>,
                              st2\<lparr>db := Some c', trace := trace st2 @ [Save docRef]\<rparr>))
                        | None \<Rightarrow>
                            (\<lparr>status = 200,
                              body = NotSaved m ''Not saved to DB (Config missing)''\<rparr>,
                             st2))))))"

section \<open>The hybrid search migration (SQL)\<close>

subsection \<open>The documents table and the operators of the engine\<close>

text \<open>
  A row of \<open>documents\<close>. The key \<open>id\<close> is a \<open>bigint\<close> and never null; the other columns
  may be null. The type of an embedding is left open.
\<close>

record 'e documents_row =
  d_id :: int
  d_content :: "string option"
  d_source_url :: "string option"
  d_metadata :: "string option"
  d_embedding :: "'e option"

text \<open>
  The operators the two functions take from PostgreSQL and pgvector are parameters of
  the model: the distance \<open><=>\<close>, the text search configuration \<open>english\<close> (which parses a
  text and normalises it to lexemes) and \<open>ts_rank\<close>. The values of SQL's \<open>real\<close> and
  \<open>double precision\<close> are read as real numbers; the two types themselves are kept apart
  below.
\<close>

record 'e pg =
  cosine_distance :: "'e \<Rightarrow> 'e \<Rightarrow> real"
  english :: "string \<Rightarrow> string list"
  ts_rank :: "string list \<Rightarrow> string list \<Rightarrow> real"

text \<open>
  \<open>to_tsvector('english', content)\<close> is the list of the lexemes of the document, and
  \<open>plainto_tsquery('english', query_text)\<close> the list of the lexemes of the query, which
  the query joins by \<open>AND\<close>.
\<close>

definition to_tsvector :: "'e pg \<Rightarrow> string \<Rightarrow> string list" where
  "to_tsvector p document_content = english p document_content"

definition plainto_tsquery :: "'e pg \<Rightarrow> string \<Rightarrow> string list" where
  "plainto_tsquery p query_text = english p query_text"

text \<open>
  Modelled from the spec: the match operator \<open>@@\<close> of PostgreSQL, which is not part of the
  repository. A document matches when every lexeme of the query is among its lexemes; a
  query that is empty or trivial after normalization has no lexemes and yields no match,
  rather than matching every document.
\<close>

definition ts_match :: "string list \<Rightarrow> string list \<Rightarrow> bool" where
  "ts_match tsv q = (q \<noteq> [] \<and> list_all (\<lambda>l. l \<in> set tsv) q)"

subsection \<open>Column types and RETURN QUERY\<close>

text \<open>
  The SQL types that occur: \<open>bigint\<close>, \<open>text\<close>, \<open>jsonb\<close>, \<open>integer\<close>, \<open>real\<close> (four bytes)
  and \<open>double precision\<close> (eight bytes, which is what \<open>float\<close> without a precision
  names).
\<close>

datatype sql_type = BigInt | Text | Jsonb | Int4 | Float4 | Float8

text \<open>
  The errors a call can raise: a negative \<open>LIMIT\<close>, \<open>match_count * 2\<close> leaving the range
  of \<open>integer\<close>, and (SQLSTATE 42804) a query under \<open>RETURN QUERY\<close> whose columns do not
  have the types the function declares: the number of the first such column, its type
  and the declared type, or the two numbers of columns.
\<close>

datatype pg_error =
    LimitNegative
  | IntegerOutOfRange
  | DatatypeMismatch nat sql_type sql_type
  | ColumnCountMismatch nat nat

text \<open>
  The type of an arithmetic operator on two numeric types, and of \<open>COALESCE\<close> over them:
  the one of the two that the other converts to implicitly (\<open>integer\<close> to \<open>bigint\<close> to
  \<open>real\<close> to \<open>double precision\<close>).
\<close>

fun numeric_rank :: "sql_type \<Rightarrow> nat" where
  "numeric_rank Int4 = 0"
| "numeric_rank BigInt = 1"
| "numeric_rank Float4 = 2"
| "numeric_rank Float8 = 3"
| "numeric_rank Text = 0"
| "numeric_rank Jsonb = 0"

definition numeric_result :: "sql_type \<Rightarrow> sql_type \<Rightarrow> sql_type" where
  "numeric_result a b = (if numeric_rank a \<le> numeric_rank b then b else a)"

text \<open>
  The types the expressions start from. The declaration of the table is not part of the
  migration; its columns \<open>id\<close>, \<open>content\<close>, \<open>source_url\<close> and \<open>metadata\<close> are taken with
  the types under which both functions return them. pgvector declares \<open><=>\<close> with the
  result \<open>double precision\<close>, PostgreSQL declares \<open>ts_rank\<close> with the result \<open>real\<close>.
\<close>

definition documents_columns :: "sql_type list" where
  "documents_columns = [BigInt, Text, Text, Jsonb]"

definition distance_type :: sql_type where
  "distance_type = Float8"

definition ts_rank_type :: sql_type where
  "ts_rank_type = Float4"

text \<open>
  The columns \<open>similarity\<close> and \<open>bm25\<close> of \<open>vector_results\<close>
  (\<open>1 - (d.embedding <=> query_embedding)\<close> and \<open>0::float\<close>) and of \<open>keyword_results\<close>
  (\<open>0::float\<close> and \<open>ts_rank(...)\<close>).
\<close>

definition vector_results_scores :: "sql_type \<times> sql_type" where
  "vector_results_scores = (numeric_result Int4 distance_type, Float8)"

definition keyword_results_scores :: "sql_type \<times> sql_type" where
  "keyword_results_scores = (Float8, ts_rank_type)"

text \<open>
  The columns of \<open>combined\<close>, which the final \<open>SELECT\<close> of \<open>hybrid_search_documents\<close>
  hands on: the four columns of the table, \<open>COALESCE(v.similarity, 0)\<close>,
  \<open>COALESCE(k.bm25, 0)\<close> and the combined score, whose weights are \<open>float\<close> arguments.
\<close>

definition hybrid_query_columns :: "sql_type list" where
  "hybrid_query_columns =
     (let similarity_type = numeric_result (fst vector_results_scores) Int4;
          bm25_type = numeric_result (snd keyword_results_scores) Int4
      in documents_columns
         @ [similarity_type, bm25_type,
            numeric_result (numeric_result similarity_type Float8)
              (numeric_result (numeric_result bm25_type Float8) Int4)])"

text \<open>\<open>RETURNS TABLE\<close> of \<open>hybrid_search_documents\<close>\<close>

definition hybrid_returns_table :: "sql_type list" where
  "hybrid_returns_table = [BigInt, Text, Text, Jsonb, Float8, Float8, Float8]"

text \<open>The columns of the query of \<open>keyword_search_documents\<close>, and its \<open>RETURNS TABLE\<close>.\<close>

definition keyword_query_columns :: "sql_type list" where
  "keyword_query_columns = documents_columns @ [ts_rank_type]"

definition keyword_returns_table :: "sql_type list" where
  "keyword_returns_table = [BigInt, Text, Text, Jsonb, Float8]"

text \<open>
  \<open>RETURN QUERY\<close> does not cast: the columns of the query must have the declared types,
  one by one. The first column that differs is reported.
\<close>

fun first_mismatch :: "nat \<Rightarrow> sql_type list \<Rightarrow> sql_type list \<Rightarrow> pg_error option" where
  "first_mismatch n [] [] = None"
| "first_mismatch n (a # actual) (d # declared) =
     (if a = d then first_mismatch (Suc n) actual declared
      else Some (DatatypeMismatch n a d))"
| "first_mismatch n [] (d # declared) = Some (ColumnCountMismatch (n - 1) (n + length declared))"
| "first_mismatch n (a # actual) [] = Some (ColumnCountMismatch (n + length actual) (n - 1))"

text \<open>
  The outcome of a function whose body is \<open>RETURN QUERY\<close>. The structure of the query is
  checked when the query is started, before any of its rows is computed and before its
  \<open>LIMIT\<close> is read; only a query of the declared structure is run, and its outcome is
  that of the function. One error can come earlier still: an expression over the
  arguments alone (\<open>match_count * 2\<close>) is computed already when the statement is planned,
  if the engine plans it with the arguments as constants, and its error is then the
  outcome of the call. Whether it plans so is the engine's choice, so where such an
  expression fails both errors are possible outcomes.
\<close>

definition return_query ::
  "sql_type list \<Rightarrow> sql_type list \<Rightarrow> (pg_error + 'b) \<Rightarrow> ((pg_error + 'a) \<Rightarrow> bool)
     \<Rightarrow> (pg_error + 'a) \<Rightarrow> bool" where
  "return_query declared actual planned query r =
     ((\<exists>err. planned = Inl err \<and> r = Inl err)
      \<or> (case first_mismatch 1 actual declared of
            Some err \<Rightarrow> r = Inl err
          | None \<Rightarrow> query r))"

subsection \<open>LIMIT and ORDER BY\<close>

definition int4_mul :: "int \<Rightarrow> int \<Rightarrow> pg_error + int" where
  "int4_mul a b =
     (if - 2147483648 \<le> a * b \<and> a * b \<le> 2147483647 then Inr (a * b)
      else Inl IntegerOutOfRange)"

definition limit_rows :: "int \<Rightarrow> pg_error + nat" where
  "limit_rows n = (if n < 0 then Inl LimitNegative else Inr (nat n))"

text \<open>The limit \<open>match_count * 2\<close> of the two candidate lookups.\<close>

definition candidate_limit :: "int \<Rightarrow> pg_error + nat" where
  "candidate_limit match_count =
     (case int4_mul match_count 2 of Inl err \<Rightarrow> Inl err | Inr n \<Rightarrow> limit_rows n)"

text \<open>
  \<open>ORDER BY k\<close>: the rows come out in some arrangement that ascends in \<open>k\<close>. Which one,
  among rows with equal keys, the engine is free to choose, each time the statement is
  run; so \<open>ORDER BY\<close> is a relation between the rows that go in and an arrangement that
  may come out. \<open>ORDER BY k DESC\<close> is \<open>ORDER BY\<close> the negated key.
\<close>

definition ordered_by :: "('a \<Rightarrow> real) \<Rightarrow> 'a list \<Rightarrow> 'a list \<Rightarrow> bool" where
  "ordered_by k xs ys = (mset ys = mset xs \<and> sorted (map k ys))"

subsection \<open>The candidate lookups\<close>

text \<open>A row of \<open>vector_results\<close> or of \<open>keyword_results\<close>.\<close>

record cte_row =
  c_id :: int
  c_content :: "string option"
  c_source_url :: "string option"
  c_metadata :: "string option"
  c_similarity :: real
  c_bm25 :: real

text \<open>
  \<open>filter_source_url IS NULL OR d.source_url = filter_source_url\<close>: with a filter, a row
  whose \<open>source_url\<close> is null does not pass.
\<close>

definition source_url_ok :: "string option \<Rightarrow> 'e documents_row \<Rightarrow> bool" where
  "source_url_ok filter_source_url d =
     (case filter_source_url of None \<Rightarrow> True | Some f \<Rightarrow> d_source_url d = Some f)"

text \<open>
  The \<open>WHERE\<close> and \<open>SELECT\<close> of \<open>vector_results\<close> on one row, with the distance the rows
  are ordered by. A row without embedding has a null distance and does not pass.
\<close>

definition vector_match ::
  "'e pg \<Rightarrow> 'e \<Rightarrow> real \<Rightarrow> string option \<Rightarrow> 'e documents_row \<Rightarrow> (real \<times> cte_row) option" where
  "vector_match p query_embedding match_threshold filter_source_url d =
     (case d_embedding d of
        None \<Rightarrow> None
      | Some emb \<Rightarrow>
          if source_url_ok filter_source_url d
             \<and> 1 - cosine_distance p emb query_embedding > match_threshold
          then Some (cosine_distance p emb query_embedding,
                     \<lparr> c_id = d_id d, c_content = d_content d, c_source_url = d_source_url d,
                       c_metadata = d_metadata d,
                       c_similarity = 1 - cosine_distance p emb query_embedding,
                       c_bm25 = 0 \<rparr>)
          else None)"

text \<open>
  \<open>vector_results\<close>: the rows that pass, \<open>ORDER BY d.embedding <=> query_embedding\<close>,
  \<open>LIMIT\<close> the given number of rows.
\<close>

inductive vector_results ::
  "'e pg \<Rightarrow> 'e documents_row list \<Rightarrow> 'e \<Rightarrow> real \<Rightarrow> string option \<Rightarrow> nat \<Rightarrow> cte_row list \<Rightarrow> bool"
  for p documents query_embedding match_threshold filter_source_url row_limit
where
  "ordered_by fst
     (List.map_filter (vector_match p query_embedding match_threshold filter_source_url)
        documents) ys
   \<Longrightarrow> vector_results p documents query_embedding match_threshold filter_source_url row_limit
         (map snd (take row_limit ys))"

text \<open>
  The \<open>WHERE\<close> and \<open>SELECT\<close> of \<open>keyword_results\<close> (and of \<open>keyword_search_documents\<close>) on
  one row. A row without content has a null \<open>tsvector\<close> and does not pass.
\<close>

definition keyword_match ::
  "'e pg \<Rightarrow> string \<Rightarrow> string option \<Rightarrow> 'e documents_row \<Rightarrow> cte_row option" where
  "keyword_match p query_text filter_source_url d =
     (case d_content d of
        None \<Rightarrow> None
      | Some c \<Rightarrow>
          if source_url_ok filter_source_url d
             \<and> ts_match (to_tsvector p c) (plainto_tsquery p query_text)
          then Some \<lparr> c_id = d_id d, c_content = d_content d, c_source_url = d_source_url d,
                      c_metadata = d_metadata d, c_similarity = 0,
                      c_bm25 = ts_rank p (to_tsvector p c) (plainto_tsquery p query_text) \<rparr>
          else None)"

text \<open>\<open>keyword_results\<close>: the rows that pass, \<open>ORDER BY bm25 DESC\<close>, \<open>LIMIT\<close>.\<close>

inductive keyword_results ::
  "'e pg \<Rightarrow> 'e documents_row list \<Rightarrow> string \<Rightarrow> string option \<Rightarrow> nat \<Rightarrow> cte_row list \<Rightarrow> bool"
  for p documents query_text filter_source_url row_limit
where
  "ordered_by (\<lambda>k. - c_bm25 k)
     (List.map_filter (keyword_match p query_text filter_source_url) documents) ys
   \<Longrightarrow> keyword_results p documents query_text filter_source_url row_limit (take row_limit ys)"

subsection \<open>Fusion\<close>

text \<open>
  \<open>vector_results v FULL OUTER JOIN keyword_results k ON v.id = k.id\<close>: every pair with
  equal ids, every vector row without partner and every keyword row without partner.
  The order of the joined rows plays no part: they are only read through the final
  \<open>ORDER BY\<close>.
\<close>

datatype joined = Both cte_row cte_row | VectorOnly cte_row | KeywordOnly cte_row

definition full_outer_join :: "cte_row list \<Rightarrow> cte_row list \<Rightarrow> joined list" where
  "full_outer_join vs ks =
     concat (map (\<lambda>v. let partners = filter (\<lambda>k. c_id v = c_id k) ks in
                       if partners = [] then [VectorOnly v] else map (Both v) partners) vs)
     @ map KeywordOnly (filter (\<lambda>k. \<not> list_ex (\<lambda>v. c_id v = c_id k) vs) ks)"

text \<open>A row of \<open>combined\<close>, and of the result table.\<close>

record fused_row =
  id' :: int
  content :: "string option"
  source_url :: "string option"
  metadata :: "string option"
  similarity :: real
  bm25_score :: real
  combined_score :: real

definition coalesce :: "'a option \<Rightarrow> 'a option \<Rightarrow> 'a option" where
  "coalesce a b = (case a of Some x \<Rightarrow> Some x | None \<Rightarrow> b)"

text \<open>
  The \<open>SELECT\<close> of \<open>combined\<close> on one joined row; the columns of the missing side are
  null, and \<open>COALESCE(x, 0)\<close> makes its score 0.
\<close>

fun combined_row :: "real \<Rightarrow> real \<Rightarrow> joined \<Rightarrow> fused_row" where
  "combined_row vector_weight keyword_weight (Both v k) =
     \<lparr> id' = c_id v,
       content = coalesce (c_content v) (c_content k),
       source_url = coalesce (c_source_url v) (c_source_url k),
       metadata = coalesce (c_metadata v) (c_metadata k),
       similarity = c_similarity v,
       bm25_score = c_bm25 k,
       combined_score = c_similarity v * vector_weight + c_bm25 k * keyword_weight * 10 \<rparr>"
| "combined_row vector_weight keyword_weight (VectorOnly v) =
     \<lparr> id' = c_id v, content = c_content v, source_url = c_source_url v,
       metadata = c_metadata v,
       similarity = c_similarity v,
       bm25_score = 0,
       combined_score = c_similarity v * vector_weight + 0 * keyword_weight * 10 \<rparr>"
| "combined_row vector_weight keyword_weight (KeywordOnly k) =
     \<lparr> id' = c_id k, content = c_content k, source_url = c_source_url k,
       metadata = c_metadata k,
       similarity = 0,
       bm25_score = c_bm25 k,
       combined_score = 0 * vector_weight + c_bm25 k * keyword_weight * 10 \<rparr>"

definition combined :: "real \<Rightarrow> real \<Rightarrow> cte_row list \<Rightarrow> cte_row list \<Rightarrow> fused_row list" where
  "combined vector_weight keyword_weight vs ks =
     map (combined_row vector_weight keyword_weight) (full_outer_join vs ks)"

text \<open>The rows of \<open>combined\<close>, over some outcome of each of the two lookups.\<close>

inductive fused_candidates ::
  "'e pg \<Rightarrow> 'e documents_row list \<Rightarrow> 'e \<Rightarrow> string \<Rightarrow> real \<Rightarrow> nat \<Rightarrow> string option
     \<Rightarrow> real \<Rightarrow> real \<Rightarrow> fused_row list \<Rightarrow> bool"
  for p documents query_embedding query_text match_threshold row_limit filter_source_url
    vector_weight keyword_weight
where
  "vector_results p documents query_embedding match_threshold filter_source_url row_limit vs
   \<Longrightarrow> keyword_results p documents query_text filter_source_url row_limit ks
   \<Longrightarrow> fused_candidates p documents query_embedding query_text match_threshold row_limit
         filter_source_url vector_weight keyword_weight
         (combined vector_weight keyword_weight vs ks)"

text \<open>\<open>ORDER BY c.combined_score DESC LIMIT match_count\<close>\<close>

inductive order_limit :: "nat \<Rightarrow> fused_row list \<Rightarrow> fused_row list \<Rightarrow> bool"
  for row_limit cs
where
  "ordered_by (\<lambda>c. - combined_score c) cs ys \<Longrightarrow> order_limit row_limit cs (take row_limit ys)"

subsection \<open>hybrid_search_documents\<close>

text \<open>
  The query under \<open>RETURN QUERY\<close> in \<open>hybrid_search_documents\<close>, and the outcomes it can
  have: the error of a limit, or the fused rows in order, cut at \<open>match_count\<close>. The
  final \<open>LIMIT\<close> is read first when the query runs, and a negative \<open>match_count\<close> is
  its error; the limit \<open>match_count * 2\<close> of the lookups is read after that, unless the
  product was computed when the statement was planned, so its error is a possible
  outcome in either case.
\<close>

inductive hybrid_search_query ::
  "'e pg \<Rightarrow> 'e documents_row list \<Rightarrow> 'e \<Rightarrow> string \<Rightarrow> real \<Rightarrow> int \<Rightarrow> string option
     \<Rightarrow> real \<Rightarrow> real \<Rightarrow> (pg_error + fused_row list) \<Rightarrow> bool"
  for p documents query_embedding query_text match_threshold match_count filter_source_url
    vector_weight keyword_weight
where
  limit_error:
    "limit_rows match_count = Inl err
     \<Longrightarrow> hybrid_search_query p documents query_embedding query_text match_threshold match_count
           filter_source_url vector_weight keyword_weight (Inl err)"
| candidate_limit_error:
    "candidate_limit match_count = Inl err
     \<Longrightarrow> hybrid_search_query p documents query_embedding query_text match_threshold match_count
           filter_source_url vector_weight keyword_weight (Inl err)"
| rows:
    "limit_rows match_count = Inr row_limit
     \<Longrightarrow> candidate_limit match_count = Inr candidate_rows
     \<Longrightarrow> fused_candidates p documents query_embedding query_text match_threshold
           candidate_rows filter_source_url vector_weight keyword_weight cs
     \<Longrightarrow> order_limit row_limit cs rs
     \<Longrightarrow> hybrid_search_query p documents query_embedding query_text match_threshold match_count
           filter_source_url vector_weight keyword_weight (Inr rs)"

text \<open>
  The function: \<open>RETURN QUERY\<close> of that query against the declared \<open>RETURNS TABLE\<close>.
\<close>

definition hybrid_search_documents ::
  "'e pg \<Rightarrow> 'e documents_row list \<Rightarrow> 'e \<Rightarrow> string \<Rightarrow> real \<Rightarrow> int \<Rightarrow> string option
     \<Rightarrow> real \<Rightarrow> real \<Rightarrow> (pg_error + fused_row list) \<Rightarrow> bool" where
  "hybrid_search_documents p documents query_embedding query_text match_threshold match_count
       filter_source_url vector_weight keyword_weight =
     return_query hybrid_returns_table hybrid_query_columns (int4_mul match_count 2)
       (hybrid_search_query p documents query_embedding query_text match_threshold match_count
          filter_source_url vector_weight keyword_weight)"

text \<open>
  A call that leaves out arguments with a \<open>DEFAULT\<close>: threshold 0.3, count 10, no filter,
  weights 0.7 and 0.3.
\<close>

definition hybrid_search_documents_call ::
  "'e pg \<Rightarrow> 'e documents_row list \<Rightarrow> 'e \<Rightarrow> string \<Rightarrow> real option \<Rightarrow> int option
     \<Rightarrow> string option \<Rightarrow> real option \<Rightarrow> real option
     \<Rightarrow> (pg_error + fused_row list) \<Rightarrow> bool" where
  "hybrid_search_documents_call p documents query_embedding query_text match_threshold
       match_count filter_source_url vector_weight keyword_weight =
     hybrid_search_documents p documents query_embedding query_text
       (case match_threshold of None \<Rightarrow> 0.3 | Some t \<Rightarrow> t)
       (case match_count of None \<Rightarrow> 10 | Some n \<Rightarrow> n)
       filter_source_url
       (case vector_weight of None \<Rightarrow> 0.7 | Some w \<Rightarrow> w)
       (case keyword_weight of None \<Rightarrow> 0.3 | Some w \<Rightarrow> w)"

subsection \<open>keyword_search_documents\<close>

text \<open>A row of the table \<open>keyword_search_documents\<close> declares.\<close>

record keyword_row =
  k_id :: int
  k_content :: "string option"
  k_source_url :: "string option"
  k_metadata :: "string option"
  k_rank :: real

definition keyword_row_of :: "cte_row \<Rightarrow> keyword_row" where
  "keyword_row_of r =
     \<lparr> k_id = c_id r, k_content = c_content r, k_source_url = c_source_url r,
       k_metadata = c_metadata r, k_rank = c_bm25 r \<rparr>"

text \<open>
  The query under \<open>RETURN QUERY\<close> in \<open>keyword_search_documents\<close>: the rows that match,
  \<open>ORDER BY rank DESC LIMIT match_count\<close>.
\<close>

inductive keyword_search_query ::
  "'e pg \<Rightarrow> 'e documents_row list \<Rightarrow> string \<Rightarrow> int \<Rightarrow> string option
     \<Rightarrow> (pg_error + keyword_row list) \<Rightarrow> bool"
  for p documents query_text match_count filter_source_url
where
  limit_error:
    "limit_rows match_count = Inl err
     \<Longrightarrow> keyword_search_query p documents query_text match_count filter_source_url (Inl err)"
| rows:
    "limit_rows match_count = Inr row_limit
     \<Longrightarrow> ordered_by (\<lambda>k. - c_bm25 k)
           (List.map_filter (keyword_match p query_text filter_source_url) documents) ys
     \<Longrightarrow> keyword_search_query p documents query_text match_count filter_source_url
           (Inr (map keyword_row_of (take row_limit ys)))"

definition keyword_search_documents ::
  "'e pg \<Rightarrow> 'e documents_row list \<Rightarrow> string \<Rightarrow> int \<Rightarrow> string option
     \<Rightarrow> (pg_error + keyword_row list) \<Rightarrow> bool" where
  "keyword_search_documents p documents query_text match_count filter_source_url =
     return_query keyword_returns_table keyword_query_columns (Inr ())
       (keyword_search_query p documents query_text match_count filter_source_url)"

section \<open>Example inputs\<close>

text \<open>
  A runtime for the examples, right on strings of ASCII characters: the letters A to Z
  are lowered, \<open>substring\<close> counts characters. No number occurs in the examples.
\<close>

definition lower_char :: "char \<Rightarrow> char" where
  "lower_char c =
     (case map_of (zip ''ABCDEFGHIJKLMNOPQRSTUVWXYZ'' ''abcdefghijklmnopqrstuvwxyz'') c of
        Some l \<Rightarrow> l
      | None \<Rightarrow> c)"

text \<open>
  A request environment in which the scraper and the analyser answer, a request for a
  page by its address, a request without url and text, a request whose url is a number,
  a request whose url is an array, and a state with an empty collection.
\<close>

definition example_env :: env where
  "example_env =
     \<lparr> toLowerCase = map lower_char,
       substring = (\<lambda>s i j. take (j - i) (drop i s)),
       numberToString = (\<lambda>x. ''0''),
       FIRECRAWL_API_KEY = Str ''key'',
       axios_post = (\<lambda>u. Inr \<lparr>success = True,
                               data = Some \<lparr>markdown = Str ''Hello'', page_metadata = []\<rparr>\<rparr>),
       mistral_chat = (\<lambda>t. Inr \<lparr>title = Str ''T'', summary = Str ''S'', keywords' = [],
                                 emotions = [], timestamp = Undefined, source_url_found = Null\<rparr>),
       now = ''2026-01-01T00:00:00.000Z'' \<rparr>"

definition example_body :: request_body where
  "example_body =
     \<lparr>body_url = Str ''https://example.com/a'', body_text = Str [], body_title = Str []\<rparr>"



definition array_body :: request_body where
  "array_body =
     \<lparr>body_url = Arr [Str ''localhost''], body_text = Str ''note'', body_title = Str ''t''\<rparr>"

definition example_state :: state where
  "example_state = \<lparr>db = Some [], trace = []\<rparr>"

text \<open>
  An engine for the examples. Embeddings are unit vectors of the plane, for which the
  cosine distance is one minus the inner product; the configuration splits a text at
  blanks and drops the stop words \<open>the\<close> and \<open>a\<close>; the rank of a document is a tenth of
  the number of its lexemes that occur in the query.
\<close>

fun split_on :: "char \<Rightarrow> string \<Rightarrow> string list" where
  "split_on c [] = [[]]"
| "split_on c (x # xs) =
     (if x = c then [] # split_on c xs
      else (case split_on c xs of w # ws \<Rightarrow> (x # w) # ws | [] \<Rightarrow> [[x]]))"

definition example_pg :: "(real \<times> real) pg" where
  "example_pg =
     \<lparr> cosine_distance = (\<lambda>(a1, a2) (b1, b2). 1 - (a1 * b1 + a2 * b2)),
       english = (\<lambda>s. filter (\<lambda>w. w \<notin> {[], ''the'', ''a''}) (split_on CHR '' '' s)),
       ts_rank = (\<lambda>tsv q. real (length (filter (\<lambda>l. l \<in> set q) tsv)) / 10) \<rparr>"

text \<open>A table of three documents.\<close>

definition example_documents :: "(real \<times> real) documents_row list" where
  "example_documents =
     [\<lparr> d_id = 1, d_content = Some ''python python tutorial'',
        d_source_url = Some ''https://a.example'', d_metadata = None,
        d_embedding = Some (0, 1) \<rparr>,
      \<lparr> d_id = 2, d_content = Some ''cooking recipes'',
        d_source_url = Some ''https://b.example'', d_metadata = None,
        d_embedding = Some (1, 0) \<rparr>,
      \<lparr> d_id = 3, d_content = Some ''python cooking'',
        d_source_url = Some ''https://a.example'', d_metadata = None,
        d_embedding = Some (3/5, 4/5) \<rparr>]"

text \<open>
  A table of three documents with the same content, which tie in the lexical rank; the
  first two have the embedding of the query, the third is orthogonal to it.
\<close>

definition tied_documents :: "(real \<times> real) documents_row list" where
  "tied_documents =
     [\<lparr> d_id = 2, d_content = Some ''python'',
        d_source_url = Some ''https://a.example'', d_metadata = None,
        d_embedding = Some (1, 0) \<rparr>,
      \<lparr> d_id = 1, d_content = Some ''python'',
        d_source_url = Some ''https://a.example'', d_metadata = None,
        d_embedding = Some (1, 0) \<rparr>,
      \<lparr> d_id = 3, d_content = Some ''python'',
        d_source_url = Some ''https://a.example'', d_metadata = None,
        d_embedding = Some (0, 1) \<rparr>]"

section \<open>Properties of the intake service\<close>

subsection \<open>deriveTypeFromUrl\<close>

text \<open>
  Claim C10, as stated: \<open>deriveTypeFromUrl\<close> returns a type for every input. For the
  array \<open>["localhost"]\<close>, which is truthy and not a string, the call of \<open>toLowerCase\<close>
  throws; the handler reaches it with that array as url (the array has \<open>includes\<close>, the
  address counts as local, the note is analysed) and answers 500.
\<close>

theorem deriveTypeFromUrl_throws_counterexample:
  "deriveTypeFromUrl example_env (Arr [Str ''localhost''])
     = Inl (not_a_function ''url.toLowerCase'')
   \<and> fst (receive_data example_env example_state array_body)
     = \<lparr>status = 500, body = ErrorBody (not_a_function ''url.toLowerCase'')\<rparr>"
  by (simp add: deriveTypeFromUrl_def receive_data_def gather_def isLocal_def array_body_def
        analyzeContent_def finalMemory_def example_env_def js_or_def Let_def)

text \<open>
  Claim C10, amended. For every falsy value and every string \<open>deriveTypeFromUrl\<close> returns
  one of the ten fixed types: a falsy url (undefined, null, false, 0, the empty string)
  gives \<open>text\<close>; for a non-empty string the platform substrings are tested on the
  lower-cased url in the fixed order of the table, the first rule that matches decides,
  before the \<open>.pdf\<close> suffix is looked at, and a string that matches no platform gives
  \<open>pdf\<close> when its lower-cased form ends in \<open>.pdf\<close> and \<open>article\<close> otherwise. For a
  truthy value that is not a string the function throws a TypeError. Whatever it returns
  is one of the ten types.
\<close>

theorem deriveTypeFromUrl_results:
  "(\<not> truthy v \<longrightarrow> deriveTypeFromUrl rt v = Inr ''text'')
   \<and> (s \<noteq> [] \<longrightarrow>
        deriveTypeFromUrl rt (Str s) =
          Inr (case first_platform (toLowerCase rt s) of
                 Some t \<Rightarrow> t
               | None \<Rightarrow> if endsWith (toLowerCase rt s) ''.pdf'' then ''pdf'' else ''article''))
   \<and> (truthy v \<and> (\<forall>s. v \<noteq> Str s) \<longrightarrow>
        deriveTypeFromUrl rt v = Inl (not_a_function ''url.toLowerCase''))
   \<and> (\<forall>t. deriveTypeFromUrl rt v = Inr t \<longrightarrow>
         t \<in> {''text'', ''youtube'', ''linkedin'', ''twitter'', ''reddit'', ''quora'',
              ''instagram'', ''github'', ''pdf'', ''article''})"
proof -
  have falsy: "deriveTypeFromUrl rt v = Inr ''text''" if "\<not> truthy v"
    using that by (simp add: deriveTypeFromUrl_def)
  have table: "deriveTypeFromUrl rt (Str s) =
          Inr (case first_platform (toLowerCase rt s) of
                 Some t \<Rightarrow> t
               | None \<Rightarrow> if endsWith (toLowerCase rt s) ''.pdf'' then ''pdf'' else ''article'')"
    if "s \<noteq> []"
    using that
    by (simp add: deriveTypeFromUrl_def first_platform_def platform_rules_def Let_def)
  have throws: "deriveTypeFromUrl rt v = Inl (not_a_function ''url.toLowerCase'')"
    if "truthy v \<and> (\<forall>s. v \<noteq> Str s)"
    using that by (cases v) (simp_all add: deriveTypeFromUrl_def)
  have mem: "t \<in> {''text'', ''youtube'', ''linkedin'', ''twitter'', ''reddit'', ''quora'',
              ''instagram'', ''github'', ''pdf'', ''article''}"
    if "deriveTypeFromUrl rt v = Inr t" for t
  proof (cases "truthy v")
    case False
    with that falsy show ?thesis by simp
  next
    case True
    show ?thesis
    proof (cases v)
      case (Str s)
      with that True show ?thesis
        by (auto simp: deriveTypeFromUrl_def Let_def split: if_splits)
    qed (use that True in \<open>simp_all add: deriveTypeFromUrl_def\<close>)
  qed
  from falsy table throws mem show ?thesis by blast
qed

theorem deriveTypeFromUrl_results_witness:
  "''https://GitHub.com/a/b.pdf'' \<noteq> []
   \<and> deriveTypeFromUrl example_env (Str ''https://GitHub.com/a/b.pdf'') = Inr ''github''
   \<and> \<not> truthy Null
   \<and> deriveTypeFromUrl example_env Null = Inr ''text''
   \<and> truthy (Num 123)
   \<and> deriveTypeFromUrl example_env (Num 123) = Inl (not_a_function ''url.toLowerCase'')"
proof -
  have fp: "first_platform (toLowerCase example_env ''https://GitHub.com/a/b.pdf'')
      = Some ''github''"
    by (simp add: example_env_def first_platform_def platform_rules_def lower_char_def)
  from deriveTypeFromUrl_results [of "Str ''https://GitHub.com/a/b.pdf''" example_env
      "''https://GitHub.com/a/b.pdf''"]
  have 1: "deriveTypeFromUrl example_env (Str ''https://GitHub.com/a/b.pdf'') = Inr ''github''"
    by (simp only: fp option.case) simp
  from deriveTypeFromUrl_results [of Null example_env "[]"]
  have 2: "deriveTypeFromUrl example_env Null = Inr ''text''" by simp
  from deriveTypeFromUrl_results [of "Num 123" example_env "[]"]
  have 3: "deriveTypeFromUrl example_env (Num 123) = Inl (not_a_function ''url.toLowerCase'')"
    by simp
  from 1 2 3 show ?thesis by simp
qed

subsection \<open>The handler\<close>

lemma gather_state:
  "snd (gather e st b) = st
   \<or> snd (gather e st b) = st\<lparr>trace := trace st @ [Scrape (body_url b)]\<rparr>"
  by (simp add: gather_def Let_def split: sum.splits)

lemma gather_db: "db (snd (gather e st b)) = db st"
  using gather_state [of e st b] by auto



lemma fresh_id_bound: "i \<in> set (map fst c) \<Longrightarrow> i < fresh_id c"
  by (induction c) (auto simp: fresh_id_def less_Suc_eq_le le_max_iff_disj)

lemma fresh_id_new: "fresh_id c \<notin> fst ` set c"
  using fresh_id_bound [of "fresh_id c" c] by auto

lemma finalMemory_url:
  "finalMemory e b a = Inr m \<Longrightarrow> url m = js_or (body_url b) Null"
  by (auto simp: finalMemory_def Let_def split: sum.splits)

text \<open>The example request, evaluated.\<close>

lemma example_gather:
  "gather example_env st example_body
     = (Inr (Str ''Hello''), st\<lparr>trace := trace st @ [Scrape (Str ''https://example.com/a'')]\<rparr>)"
  by (simp add: gather_def example_env_def example_body_def isLocal_def
        scrapeWithFirecrawl_def js_or_def Let_def)

lemma example_analyze:
  "analyzeContent example_env (Str ''Hello'')
     = Inr \<lparr>title = Str ''T'', summary = Str ''S'', keywords' = [],
             emotions = [], timestamp = Undefined, source_url_found = Null\<rparr>"
  by (simp add: analyzeContent_def example_env_def)

lemma example_memory:
  "\<exists>m. finalMemory example_env example_body a = Inr m \<and> url m = Str ''https://example.com/a''"
  by (simp add: finalMemory_def example_body_def js_or_def deriveTypeFromUrl_def Let_def)

lemma example_truthy: "truthy (body_url example_body)"
  by (simp add: example_body_def)

lemma example_receive:
  assumes "db st = Some c"
  shows "\<exists>m. url m = Str ''https://example.com/a''
     \<and> receive_data example_env st example_body =
         (\<lparr>status = 200, body = Saved (fresh_id c) m\<rparr>,
          st\<lparr>db := Some (c @ [(fresh_id c, m)]),
             trace := trace st @ [Scrape (Str ''https://example.com/a''), Analyze (Str ''Hello''),
                                  Save (fresh_id c)]\<rparr>)"
proof -
  from example_memory obtain m where
    m: "finalMemory example_env example_body
          \<lparr>title = Str ''T'', summary = Str ''S'', keywords' = [],
            emotions = [], timestamp = Undefined, source_url_found = Null\<rparr> = Inr m"
    and u: "url m = Str ''https://example.com/a''"
    by blast
  from assms m have "receive_data example_env st example_body =
         (\<lparr>status = 200, body = Saved (fresh_id c) m\<rparr>,
          st\<lparr>db := Some (c @ [(fresh_id c, m)]),
             trace := trace st @ [Scrape (Str ''https://example.com/a''), Analyze (Str ''Hello''),
                                  Save (fresh_id c)]\<rparr>)"
    by (simp add: receive_data_def example_gather example_analyze example_truthy add_def
          js_or_def Let_def)
  with u show ?thesis by blast
qed



text \<open>
  Claim C8, as stated: submitting the same source a second time leaves the number of
  stored entries for its address unchanged. The handler stores with \<open>collection.add\<close>:
  after the first submission of the example request there is one entry for the address,
  after the second there are two.
\<close>

theorem receive_data_twice_counterexample:
  "stored_entries (Str ''https://example.com/a'')
     (snd (receive_data example_env example_state example_body)) = 1
   \<and> stored_entries (Str ''https://example.com/a'')
       (snd (receive_data example_env
               (snd (receive_data example_env example_state example_body)) example_body)) = 2"
proof -
  have d: "db example_state = Some []" by (simp add: example_state_def)
  from example_receive [OF d] obtain m1 where m1: "url m1 = Str ''https://example.com/a''"
    and r1: "receive_data example_env example_state example_body =
         (\<lparr>status = 200, body = Saved (fresh_id []) m1\<rparr>,
          example_state\<lparr>db := Some ([] @ [(fresh_id [], m1)]),
             trace := trace example_state @ [Scrape (Str ''https://example.com/a''),
                        Analyze (Str ''Hello''), Save (fresh_id [])]\<rparr>)"
    by blast
  have d1: "db (snd (receive_data example_env example_state example_body)) =
     Some ([] @ [(fresh_id [], m1)])"
    by (simp add: r1)
  from example_receive [OF d1] obtain m2 where m2: "url m2 = Str ''https://example.com/a''"
    and r2: "snd (receive_data example_env
               (snd (receive_data example_env example_state example_body)) example_body)
          = (snd (receive_data example_env example_state example_body))
              \<lparr>db := Some (([] @ [(fresh_id [], m1)])
                            @ [(fresh_id ([] @ [(fresh_id [], m1)]), m2)]),
               trace := trace (snd (receive_data example_env example_state example_body))
                        @ [Scrape (Str ''https://example.com/a''), Analyze (Str ''Hello''),
                           Save (fresh_id ([] @ [(fresh_id [], m1)]))]\<rparr>"
    by auto
  have 1: "stored_entries (Str ''https://example.com/a'')
     (snd (receive_data example_env example_state example_body)) = 1"
    by (simp add: r1 stored_entries_def entries_for_def m1)
  have 2: "stored_entries (Str ''https://example.com/a'')
       (snd (receive_data example_env
               (snd (receive_data example_env example_state example_body)) example_body)) = 2"
    by (simp add: r2 stored_entries_def entries_for_def m1 m2)
  from 1 2 show ?thesis by simp
qed

text \<open>
  Claim C8, amended: every submission that is answered 200 while the database is there
  appends one entry to the collection, under an id not in use, with the submitted
  address as its url; the entries already stored stay, and the number of entries for the
  address grows by one.
\<close>

theorem receive_data_appends:
  assumes "db st = Some c" and "status (fst (receive_data e st b)) = 200"
  shows "(\<exists>m. db (snd (receive_data e st b)) = Some (c @ [(fresh_id c, m)])
              \<and> url m = js_or (body_url b) Null
              \<and> fst (receive_data e st b) = \<lparr>status = 200, body = Saved (fresh_id c) m\<rparr>)
         \<and> fresh_id c \<notin> fst ` set c
         \<and> stored_entries (js_or (body_url b) Null) (snd (receive_data e st b))
             = Suc (stored_entries (js_or (body_url b) Null) st)"
proof -
  obtain r st1 where g: "gather e st b = (r, st1)" by (cases "gather e st b")
  from gather_db [of e st b] g assms(1) have db1: "db st1 = Some c" by simp
  have 1: "\<exists>m. db (snd (receive_data e st b)) = Some (c @ [(fresh_id c, m)])
             \<and> url m = js_or (body_url b) Null
             \<and> fst (receive_data e st b) = \<lparr>status = 200, body = Saved (fresh_id c) m\<rparr>"
    using assms(2) g db1
    by (auto simp: receive_data_def Let_def add_def finalMemory_url
             split: sum.splits if_splits)
  from 1 assms(1)
  have 2: "stored_entries (js_or (body_url b) Null) (snd (receive_data e st b))
           = Suc (stored_entries (js_or (body_url b) Null) st)"
    by (auto simp: stored_entries_def entries_for_def)
  from 1 2 fresh_id_new [of c] show ?thesis by blast
qed

theorem receive_data_appends_witness:
  "db example_state = Some []
   \<and> status (fst (receive_data example_env example_state example_body)) = 200
   \<and> stored_entries (js_or (body_url example_body) Null)
       (snd (receive_data example_env example_state example_body))
       = Suc (stored_entries (js_or (body_url example_body) Null) example_state)"
proof -
  have d: "db example_state = Some []"
    by (simp add: example_state_def)
  from example_receive [OF d]
  have s: "status (fst (receive_data example_env example_state example_body)) = 200"
    by auto
  from receive_data_appends [OF d s] d s show ?thesis by blast
qed

section \<open>Properties of the hybrid search\<close>

subsection \<open>RETURN QUERY against the declared tables\<close>

lemma hybrid_first_mismatch:
  "first_mismatch 1 hybrid_query_columns hybrid_returns_table
     = Some (DatatypeMismatch 6 Float4 Float8)"
  by (simp add: hybrid_query_columns_def hybrid_returns_table_def documents_columns_def
        vector_results_scores_def keyword_results_scores_def numeric_result_def
        distance_type_def ts_rank_type_def Let_def)

lemma keyword_first_mismatch:
  "first_mismatch 1 keyword_query_columns keyword_returns_table
     = Some (DatatypeMismatch 5 Float4 Float8)"
  by (simp add: keyword_query_columns_def keyword_returns_table_def documents_columns_def
        ts_rank_type_def)

lemma int4_mul_Inl: "int4_mul a b = Inl err \<longleftrightarrow>
    err = IntegerOutOfRange \<and> (a * b < - 2147483648 \<or> 2147483647 < a * b)"
  by (auto simp: int4_mul_def)

lemma hybrid_search_documents_iff:
  "hybrid_search_documents p documents qe qt thr mc flt vw kw r \<longleftrightarrow>
     r = Inl (DatatypeMismatch 6 Float4 Float8)
     \<or> r = Inl IntegerOutOfRange \<and> (mc * 2 < - 2147483648 \<or> 2147483647 < mc * 2)"
  unfolding hybrid_search_documents_def return_query_def hybrid_first_mismatch
  by (auto simp: int4_mul_Inl)

lemma keyword_search_documents_iff:
  "keyword_search_documents p documents qt mc flt r \<longleftrightarrow>
     r = Inl (DatatypeMismatch 5 Float4 Float8)"
  unfolding keyword_search_documents_def return_query_def keyword_first_mismatch
  by simp

lemma return_query_Inr: "return_query declared actual planned query (Inr x) \<Longrightarrow> query (Inr x)"
  by (auto simp: return_query_def split: option.splits)

subsection \<open>ORDER BY\<close>

lemma ordered_by_set: "ordered_by k xs ys \<Longrightarrow> set ys = set xs"
  by (auto simp: ordered_by_def dest: mset_eq_setD)

lemma ordered_by_length: "ordered_by k xs ys \<Longrightarrow> length ys = length xs"
  by (auto simp: ordered_by_def dest: mset_eq_length)


lemma ordered_by_Nil: "ordered_by k [] ys \<longleftrightarrow> ys = []"
  by (auto simp: ordered_by_def)

lemma ordered_by_keys:
  assumes "ordered_by k xs ys" and "ordered_by k xs zs"
  shows "map k ys = map k zs"
proof -
  from assms have "mset (map k ys) = mset (map k xs)" "sorted (map k ys)"
    "mset (map k zs) = mset (map k xs)" "sorted (map k zs)"
    by (simp_all add: ordered_by_def)
  then have "sort (map k xs) = map k ys" "sort (map k xs) = map k zs"
    by (simp_all add: properties_for_sort)
  then show ?thesis by simp
qed

lemma ordered_by_unique:
  assumes "ordered_by k xs ys" and "inj_on k (set xs)"
  shows "ys = sort_key k xs"
proof -
  from assms(1) have "mset xs = mset ys" "sorted (map k ys)"
    by (simp_all add: ordered_by_def)
  with assms(2) show ?thesis
    by (simp add: sort_key_inj_key_eq)
qed

lemma ordered_by_desc_sorted_wrt:
  "ordered_by (\<lambda>x. - k x) xs ys \<Longrightarrow> sorted_wrt (\<lambda>a b. k b \<le> k a) ys"
  by (simp add: ordered_by_def sorted_wrt_map)

lemma sorted_wrt_take_desc:
  "sorted_wrt R xs \<Longrightarrow> sorted_wrt R (take n xs)"
  by (induction xs arbitrary: n) (auto simp: take_Cons' dest: in_set_takeD)

lemma in_map_filter: "y \<in> set (List.map_filter f xs) \<longleftrightarrow> (\<exists>x\<in>set xs. f x = Some y)"
  by (induction xs) (auto split: option.splits)

subsection \<open>Introduction rules for explicit tables\<close>

lemma vector_resultsI:
  assumes "List.map_filter (vector_match p qe thr flt) documents = M"
    and "mset ys = mset M" and "sorted (map fst ys)" and "vs = map snd (take n ys)"
  shows "vector_results p documents qe thr flt n vs"
  using assms by (auto simp: ordered_by_def intro: vector_results.intros)

lemma keyword_resultsI:
  assumes "List.map_filter (keyword_match p qt flt) documents = M"
    and "mset ys = mset M" and "sorted (map (\<lambda>k. - c_bm25 k) ys)" and "ks = take n ys"
  shows "keyword_results p documents qt flt n ks"
  using assms by (auto simp: ordered_by_def intro: keyword_results.intros)

lemma order_limitI:
  assumes "mset ys = mset cs" and "sorted (map (\<lambda>c. - combined_score c) ys)"
    and "rs = take n ys"
  shows "order_limit n cs rs"
  using assms by (auto simp: ordered_by_def intro: order_limit.intros)

lemma fused_candidatesI:
  assumes "vector_results p documents qe thr flt n vs"
    and "keyword_results p documents qt flt n ks"
    and "cs = combined vw kw vs ks"
  shows "fused_candidates p documents qe qt thr n flt vw kw cs"
  using assms by (auto intro: fused_candidates.intros)

lemma keyword_search_queryI:
  assumes "limit_rows mc = Inr n"
    and "List.map_filter (keyword_match p qt flt) documents = M"
    and "mset ys = mset M" and "sorted (map (\<lambda>k. - c_bm25 k) ys)"
    and "ks = map keyword_row_of (take n ys)"
  shows "keyword_search_query p documents qt mc flt (Inr ks)"
  using assms by (auto simp: ordered_by_def intro: keyword_search_query.rows)

lemma hybrid_search_queryI:
  assumes "limit_rows mc = Inr n" and "candidate_limit mc = Inr m"
    and "fused_candidates p documents qe qt thr m flt vw kw cs"
    and "order_limit n cs rs"
  shows "hybrid_search_query p documents qe qt thr mc flt vw kw (Inr rs)"
  using assms by (rule hybrid_search_query.rows)

subsection \<open>The outcomes of the two queries\<close>

lemma candidate_limit_Inr:
  "candidate_limit mc = Inr n \<longleftrightarrow> 0 \<le> mc \<and> mc * 2 \<le> 2147483647 \<and> n = nat (mc * 2)"
  by (auto simp: candidate_limit_def int4_mul_def limit_rows_def)

lemma limit_rows_Inr: "limit_rows mc = Inr n \<longleftrightarrow> 0 \<le> mc \<and> n = nat mc"
  by (auto simp: limit_rows_def)

lemma hybrid_search_query_Inr:
  "hybrid_search_query p documents qe qt thr mc flt vw kw (Inr rs) \<longleftrightarrow>
     0 \<le> mc \<and> mc * 2 \<le> 2147483647
     \<and> (\<exists>cs. fused_candidates p documents qe qt thr (nat (mc * 2)) flt vw kw cs
             \<and> order_limit (nat mc) cs rs)"
  by (auto simp: hybrid_search_query.simps candidate_limit_Inr limit_rows_Inr)


lemma keyword_search_query_Inr:
  "keyword_search_query p documents qt mc flt (Inr ks) \<longleftrightarrow>
     0 \<le> mc
     \<and> (\<exists>ys. ordered_by (\<lambda>k. - c_bm25 k)
                (List.map_filter (keyword_match p qt flt) documents) ys
             \<and> ks = map keyword_row_of (take (nat mc) ys))"
  by (auto simp: keyword_search_query.simps limit_rows_Inr)




lemma order_limit_props:
  assumes "order_limit n cs rs"
  shows "length rs \<le> n" and "set rs \<subseteq> set cs"
    and "sorted_wrt (\<lambda>a b. combined_score b \<le> combined_score a) rs"
    and "length cs \<le> n \<Longrightarrow> set rs = set cs"
proof -
  from assms obtain ys where ys: "ordered_by (\<lambda>c. - combined_score c) cs ys"
    and rs: "rs = take n ys"
    by (auto simp: order_limit.simps)
  show "length rs \<le> n" by (simp add: rs)
  from ordered_by_set [OF ys] show "set rs \<subseteq> set cs"
    by (auto simp: rs dest: in_set_takeD)
  from ordered_by_desc_sorted_wrt [OF ys]
  show "sorted_wrt (\<lambda>a b. combined_score b \<le> combined_score a) rs"
    unfolding rs by (rule sorted_wrt_take_desc)
  show "set rs = set cs" if "length cs \<le> n"
    using that ordered_by_set [OF ys] ordered_by_length [OF ys] by (simp add: rs)
qed

subsection \<open>The candidate lookups and the join\<close>

lemma vector_match_Some:
  assumes "vector_match p qe thr flt d = Some (dst, v)"
  shows "c_id v = d_id d" and "thr < c_similarity v" and "source_url_ok flt d"
    and "c_source_url v = d_source_url d" and "c_bm25 v = 0"
    and "\<exists>emb. d_embedding d = Some emb \<and> c_similarity v = 1 - cosine_distance p emb qe"
  using assms by (auto simp: vector_match_def split: option.splits if_splits)

lemma keyword_match_Some:
  assumes "keyword_match p qt flt d = Some k"
  shows "c_id k = d_id d" and "source_url_ok flt d" and "c_similarity k = 0"
    and "\<exists>c. d_content d = Some c
           \<and> ts_match (to_tsvector p c) (plainto_tsquery p qt)
           \<and> c_bm25 k = ts_rank p (to_tsvector p c) (plainto_tsquery p qt)"
  using assms by (auto simp: keyword_match_def split: option.splits if_splits)

lemma vector_results_mem:
  assumes "vector_results p documents qe thr flt n vs" and "v \<in> set vs"
  shows "\<exists>d\<in>set documents. \<exists>dst. vector_match p qe thr flt d = Some (dst, v)"
proof -
  from assms(1) obtain ys where
    ys: "ordered_by fst (List.map_filter (vector_match p qe thr flt) documents) ys"
    and vs: "vs = map snd (take n ys)"
    by (auto simp: vector_results.simps)
  from assms(2) vs obtain dst where "(dst, v) \<in> set (take n ys)" by auto
  then have "(dst, v) \<in> set ys" by (rule in_set_takeD)
  with ordered_by_set [OF ys]
  have "(dst, v) \<in> set (List.map_filter (vector_match p qe thr flt) documents)" by simp
  then show ?thesis by (auto simp: in_map_filter)
qed

lemma keyword_results_mem:
  assumes "keyword_results p documents qt flt n ks" and "k \<in> set ks"
  shows "\<exists>d\<in>set documents. keyword_match p qt flt d = Some k"
proof -
  from assms(1) obtain ys where
    ys: "ordered_by (\<lambda>k. - c_bm25 k) (List.map_filter (keyword_match p qt flt) documents) ys"
    and ks: "ks = take n ys"
    by (auto simp: keyword_results.simps)
  from assms(2) ks have "k \<in> set ys" by (auto dest: in_set_takeD)
  with ordered_by_set [OF ys]
  have "k \<in> set (List.map_filter (keyword_match p qt flt) documents)" by simp
  then show ?thesis by (auto simp: in_map_filter)
qed

lemma in_full_outer_join:
  "j \<in> set (full_outer_join vs ks) \<longleftrightarrow>
     (\<exists>v\<in>set vs. \<exists>k\<in>set ks. c_id v = c_id k \<and> j = Both v k)
     \<or> (\<exists>v\<in>set vs. (\<forall>k\<in>set ks. c_id v \<noteq> c_id k) \<and> j = VectorOnly v)
     \<or> (\<exists>k\<in>set ks. (\<forall>v\<in>set vs. c_id v \<noteq> c_id k) \<and> j = KeywordOnly k)"
  by (auto simp: full_outer_join_def Let_def filter_empty_conv list_ex_iff)

lemma combined_row_in:
  "j \<in> set (full_outer_join vs ks) \<Longrightarrow> combined_row vw kw j \<in> set (combined vw kw vs ks)"
  by (simp add: combined_def del: combined_row.simps)

lemma combined_ids:
  "id' ` set (combined vw kw vs ks) = c_id ` set vs \<union> c_id ` set ks"
proof (intro set_eqI iffI)
  fix i assume "i \<in> id' ` set (combined vw kw vs ks)"
  then obtain j where "j \<in> set (full_outer_join vs ks)" "i = id' (combined_row vw kw j)"
    by (auto simp: combined_def)
  then show "i \<in> c_id ` set vs \<union> c_id ` set ks"
    by (auto simp: in_full_outer_join)
next
  fix i assume i: "i \<in> c_id ` set vs \<union> c_id ` set ks"
  have "(\<exists>v\<in>set vs. i = c_id v)
        \<or> (\<exists>k\<in>set ks. i = c_id k \<and> (\<forall>v\<in>set vs. c_id v \<noteq> c_id k))"
  proof (cases "i \<in> c_id ` set vs")
    case True
    then show ?thesis by auto
  next
    case False
    with i obtain k where k: "k \<in> set ks" "i = c_id k" by auto
    with False have "\<forall>v\<in>set vs. c_id v \<noteq> c_id k" by (metis imageI)
    with k show ?thesis by blast
  qed
  then consider (v) v where "v \<in> set vs" "i = c_id v"
    | (k) k where "k \<in> set ks" "i = c_id k" "\<forall>v\<in>set vs. c_id v \<noteq> c_id k"
    by blast
  then show "i \<in> id' ` set (combined vw kw vs ks)"
  proof cases
    case v
    show ?thesis
    proof (cases "\<exists>k\<in>set ks. c_id v = c_id k")
      case True
      then obtain k where "k \<in> set ks" "c_id v = c_id k" by auto
      with v have "Both v k \<in> set (full_outer_join vs ks)"
        by (auto simp: in_full_outer_join)
      then have "id' (combined_row vw kw (Both v k)) \<in> id' ` set (combined vw kw vs ks)"
        by (intro imageI combined_row_in)
      with v show ?thesis by simp
    next
      case False
      with v have "VectorOnly v \<in> set (full_outer_join vs ks)"
        by (auto simp: in_full_outer_join)
      then have "id' (combined_row vw kw (VectorOnly v)) \<in> id' ` set (combined vw kw vs ks)"
        by (intro imageI combined_row_in)
      with v show ?thesis by simp
    qed
  next
    case k
    then have "KeywordOnly k \<in> set (full_outer_join vs ks)"
      by (auto simp: in_full_outer_join)
    then have "id' (combined_row vw kw (KeywordOnly k)) \<in> id' ` set (combined vw kw vs ks)"
      by (intro imageI combined_row_in)
    with k show ?thesis by simp
  qed
qed

lemma combined_row_present:
  assumes "r \<in> set (combined vw kw vs ks)"
  shows "id' r \<in> c_id ` set vs \<Longrightarrow>
           \<exists>v\<in>set vs. c_id v = id' r \<and> similarity r = c_similarity v"
    and "id' r \<in> c_id ` set ks \<Longrightarrow>
           \<exists>k\<in>set ks. c_id k = id' r \<and> bm25_score r = c_bm25 k"
    and "id' r \<notin> c_id ` set vs \<Longrightarrow> similarity r = 0"
    and "id' r \<notin> c_id ` set ks \<Longrightarrow> bm25_score r = 0"
proof -
  from assms obtain j where j: "j \<in> set (full_outer_join vs ks)"
    and r: "r = combined_row vw kw j"
    by (auto simp: combined_def)
  from j consider
      (both) v' k' where "v' \<in> set vs" "k' \<in> set ks" "c_id v' = c_id k'" "j = Both v' k'"
    | (vec) v' where "v' \<in> set vs" "\<forall>k\<in>set ks. c_id v' \<noteq> c_id k" "j = VectorOnly v'"
    | (key) k' where "k' \<in> set ks" "\<forall>v\<in>set vs. c_id v \<noteq> c_id k'" "j = KeywordOnly k'"
    by (auto simp: in_full_outer_join)
  note cases = this
  show "\<exists>v\<in>set vs. c_id v = id' r \<and> similarity r = c_similarity v"
    if "id' r \<in> c_id ` set vs"
    using cases
  proof cases
    case both
    with r have "c_id v' = id' r \<and> similarity r = c_similarity v'" by simp
    with both(1) show ?thesis by (rule bexI [rotated])
  next
    case vec
    with r have "c_id v' = id' r \<and> similarity r = c_similarity v'" by simp
    with vec(1) show ?thesis by (rule bexI [rotated])
  next
    case key
    with r have "id' r = c_id k'" by simp
    with that obtain v where "v \<in> set vs" "c_id v = c_id k'" by (metis imageE)
    with key(2) show ?thesis by blast
  qed
  show "\<exists>k\<in>set ks. c_id k = id' r \<and> bm25_score r = c_bm25 k"
    if "id' r \<in> c_id ` set ks"
    using cases
  proof cases
    case both
    with r have "c_id k' = id' r \<and> bm25_score r = c_bm25 k'" by simp
    with both(2) show ?thesis by (rule bexI [rotated])
  next
    case vec
    with r have "id' r = c_id v'" by simp
    with that obtain k where "k \<in> set ks" "c_id v' = c_id k" by (metis imageE)
    with vec(2) show ?thesis by blast
  next
    case key
    with r have "c_id k' = id' r \<and> bm25_score r = c_bm25 k'" by simp
    with key(1) show ?thesis by (rule bexI [rotated])
  qed
  show "similarity r = 0" if "id' r \<notin> c_id ` set vs"
    using cases
  proof cases
    case both
    with r have "id' r = c_id v'" by simp
    with both(1) that show ?thesis by blast
  next
    case vec
    with r have "id' r = c_id v'" by simp
    with vec(1) that show ?thesis by blast
  next
    case key
    with r show ?thesis by simp
  qed
  show "bm25_score r = 0" if "id' r \<notin> c_id ` set ks"
    using cases
  proof cases
    case both
    with r have "id' r = c_id k'" by simp
    with both(2) that show ?thesis by blast
  next
    case vec
    with r show ?thesis by simp
  next
    case key
    with r have "id' r = c_id k'" by simp
    with key(1) that show ?thesis by blast
  qed
qed

lemma combined_score_formula:
  "r \<in> set (combined vw kw vs ks) \<Longrightarrow>
     combined_score r = similarity r * vw + bm25_score r * kw * 10"
proof -
  assume "r \<in> set (combined vw kw vs ks)"
  then obtain j where "r = combined_row vw kw j" by (auto simp: combined_def)
  then show ?thesis by (cases j) simp_all
qed

subsection \<open>The example tables, evaluated\<close>

lemmas sql_defs = vector_match_def keyword_match_def source_url_ok_def ts_match_def
  to_tsvector_def plainto_tsquery_def map_filter_simps Let_def

lemma example_vector_matches:
  "List.map_filter (vector_match example_pg (1, 0) (3 / 10) None) example_documents =
     [(0, \<lparr>c_id = 2, c_content = Some ''cooking recipes'',
           c_source_url = Some ''https://b.example'', c_metadata = None,
           c_similarity = 1, c_bm25 = 0\<rparr>),
      (2 / 5, \<lparr>c_id = 3, c_content = Some ''python cooking'',
           c_source_url = Some ''https://a.example'', c_metadata = None,
           c_similarity = 3 / 5, c_bm25 = 0\<rparr>)]"
  by (simp add: sql_defs example_documents_def example_pg_def)

lemma example_vector_matches_low:
  "List.map_filter (vector_match example_pg (1, 0) (- 1) None) example_documents =
     [(1, \<lparr>c_id = 1, c_content = Some ''python python tutorial'',
           c_source_url = Some ''https://a.example'', c_metadata = None,
           c_similarity = 0, c_bm25 = 0\<rparr>),
      (0, \<lparr>c_id = 2, c_content = Some ''cooking recipes'',
           c_source_url = Some ''https://b.example'', c_metadata = None,
           c_similarity = 1, c_bm25 = 0\<rparr>),
      (2 / 5, \<lparr>c_id = 3, c_content = Some ''python cooking'',
           c_source_url = Some ''https://a.example'', c_metadata = None,
           c_similarity = 3 / 5, c_bm25 = 0\<rparr>)]"
  by (simp add: sql_defs example_documents_def example_pg_def)


lemma example_keyword_matches:
  "List.map_filter (keyword_match example_pg ''python'' None) example_documents =
     [\<lparr>c_id = 1, c_content = Some ''python python tutorial'',
        c_source_url = Some ''https://a.example'', c_metadata = None,
        c_similarity = 0, c_bm25 = 1 / 5\<rparr>,
      \<lparr>c_id = 3, c_content = Some ''python cooking'',
        c_source_url = Some ''https://a.example'', c_metadata = None,
        c_similarity = 0, c_bm25 = 1 / 10\<rparr>]"
  by (simp add: sql_defs example_documents_def example_pg_def)

lemma example_vector_results:
  "vector_results example_pg example_documents (1, 0) (3 / 10) None 20
     [\<lparr>c_id = 2, c_content = Some ''cooking recipes'',
        c_source_url = Some ''https://b.example'', c_metadata = None,
        c_similarity = 1, c_bm25 = 0\<rparr>,
      \<lparr>c_id = 3, c_content = Some ''python cooking'',
        c_source_url = Some ''https://a.example'', c_metadata = None,
        c_similarity = 3 / 5, c_bm25 = 0\<rparr>]"
  by (rule vector_resultsI [OF example_vector_matches refl]) simp_all

lemma example_vector_results_low:
  "vector_results example_pg example_documents (1, 0) (- 1) None 20
     [\<lparr>c_id = 2, c_content = Some ''cooking recipes'',
        c_source_url = Some ''https://b.example'', c_metadata = None,
        c_similarity = 1, c_bm25 = 0\<rparr>,
      \<lparr>c_id = 3, c_content = Some ''python cooking'',
        c_source_url = Some ''https://a.example'', c_metadata = None,
        c_similarity = 3 / 5, c_bm25 = 0\<rparr>,
      \<lparr>c_id = 1, c_content = Some ''python python tutorial'',
        c_source_url = Some ''https://a.example'', c_metadata = None,
        c_similarity = 0, c_bm25 = 0\<rparr>]"
  by (rule vector_resultsI [OF example_vector_matches_low,
        of "[(0, \<lparr>c_id = 2, c_content = Some ''cooking recipes'',
                  c_source_url = Some ''https://b.example'', c_metadata = None,
                  c_similarity = 1, c_bm25 = 0\<rparr>),
             (2 / 5, \<lparr>c_id = 3, c_content = Some ''python cooking'',
                  c_source_url = Some ''https://a.example'', c_metadata = None,
                  c_similarity = 3 / 5, c_bm25 = 0\<rparr>),
             (1, \<lparr>c_id = 1, c_content = Some ''python python tutorial'',
                  c_source_url = Some ''https://a.example'', c_metadata = None,
                  c_similarity = 0, c_bm25 = 0\<rparr>)]"]) simp_all

lemma example_keyword_results:
  "keyword_results example_pg example_documents ''python'' None 20
     [\<lparr>c_id = 1, c_content = Some ''python python tutorial'',
        c_source_url = Some ''https://a.example'', c_metadata = None,
        c_similarity = 0, c_bm25 = 1 / 5\<rparr>,
      \<lparr>c_id = 3, c_content = Some ''python cooking'',
        c_source_url = Some ''https://a.example'', c_metadata = None,
        c_similarity = 0, c_bm25 = 1 / 10\<rparr>]"
  by (rule keyword_resultsI [OF example_keyword_matches refl]) simp_all

lemma example_combined:
  "combined (7 / 10) (3 / 10)
     [\<lparr>c_id = 2, c_content = Some ''cooking recipes'',
        c_source_url = Some ''https://b.example'', c_metadata = None,
        c_similarity = 1, c_bm25 = 0\<rparr>,
      \<lparr>c_id = 3, c_content = Some ''python cooking'',
        c_source_url = Some ''https://a.example'', c_metadata = None,
        c_similarity = 3 / 5, c_bm25 = 0\<rparr>]
     [\<lparr>c_id = 1, c_content = Some ''python python tutorial'',
        c_source_url = Some ''https://a.example'', c_metadata = None,
        c_similarity = 0, c_bm25 = 1 / 5\<rparr>,
      \<lparr>c_id = 3, c_content = Some ''python cooking'',
        c_source_url = Some ''https://a.example'', c_metadata = None,
        c_similarity = 0, c_bm25 = 1 / 10\<rparr>] =
     [\<lparr>id' = 2, content = Some ''cooking recipes'',
        source_url = Some ''https://b.example'', metadata = None,
        similarity = 1, bm25_score = 0, combined_score = 7 / 10\<rparr>,
      \<lparr>id' = 3, content = Some ''python cooking'',
        source_url = Some ''https://a.example'', metadata = None,
        similarity = 3 / 5, bm25_score = 1 / 10, combined_score = 18 / 25\<rparr>,
      \<lparr>id' = 1, content = Some ''python python tutorial'',
        source_url = Some ''https://a.example'', metadata = None,
        similarity = 0, bm25_score = 1 / 5, combined_score = 3 / 5\<rparr>]"
  by (simp add: combined_def full_outer_join_def coalesce_def)

lemma example_empty_query: "plainto_tsquery example_pg ''the a'' = []"
  by (simp add: plainto_tsquery_def example_pg_def)

subsection \<open>Length and order of the result\<close>

text \<open>
  The query of \<open>hybrid_search_documents\<close>, taken by itself: the rows it selects are fused
  rows, at most \<open>match_count\<close> of them, in the order of non-increasing combined score.
\<close>

lemma hybrid_search_query_top_k:
  assumes "hybrid_search_query p documents qe qt thr mc flt vw kw (Inr rs)"
  shows "int (length rs) \<le> mc"
    and "sorted_wrt (\<lambda>a b. combined_score b \<le> combined_score a) rs"
    and "\<exists>cs. fused_candidates p documents qe qt thr (nat (mc * 2)) flt vw kw cs
            \<and> set rs \<subseteq> set cs"
proof -
  from assms obtain cs where mc: "0 \<le> mc"
    and cs: "fused_candidates p documents qe qt thr (nat (mc * 2)) flt vw kw cs"
    and rs: "order_limit (nat mc) cs rs"
    by (auto simp: hybrid_search_query_Inr)
  from order_limit_props(1) [OF rs] mc show "int (length rs) \<le> mc" by simp
  from order_limit_props(3) [OF rs]
  show "sorted_wrt (\<lambda>a b. combined_score b \<le> combined_score a) rs" .
  from cs order_limit_props(2) [OF rs]
  show "\<exists>cs. fused_candidates p documents qe qt thr (nat (mc * 2)) flt vw kw cs
            \<and> set rs \<subseteq> set cs"
    by blast
qed

text \<open>
  Claim C2 says that every search returns a sequence of at most \<open>match_count\<close> rows in
  the order of non-increasing combined score. The function returns no sequence: the
  sixth column of its query, \<open>COALESCE(k.bm25, 0)\<close> over \<open>ts_rank\<close>, is of type \<open>real\<close>,
  the function declares \<open>bm25_score float\<close>, and \<open>RETURN QUERY\<close> raises the error 42804
  on every call, whatever the table and the arguments (for a count whose double leaves
  32 bits, that error or the overflow). So does the call the migration itself proposes
  as a test, with the query text \<open>test query\<close>, the count 5 and the defaults.
\<close>

theorem hybrid_search_documents_raises:
  "(hybrid_search_documents p documents qe qt thr mc flt vw kw r \<longleftrightarrow>
      r = Inl (DatatypeMismatch 6 Float4 Float8)
      \<or> r = Inl IntegerOutOfRange \<and> int4_mul mc 2 = Inl IntegerOutOfRange)
   \<and> (hybrid_search_documents_call p documents qe ''test query'' None (Some 5) None None None r
        \<longleftrightarrow> r = Inl (DatatypeMismatch 6 Float4 Float8))"
  by (auto simp: hybrid_search_documents_call_def hybrid_search_documents_iff int4_mul_Inl)

subsection \<open>Fusion of the two candidate sets\<close>

text \<open>
  Claim C1, as stated: an id present in both candidate sets has both scores non-zero.
  With the threshold -1, document 1 (orthogonal to the query, similarity 0) is a vector
  candidate and a lexical candidate, and its row in \<open>combined\<close> has the vector score 0.
\<close>

theorem both_sets_zero_component_counterexample:
  "vector_results example_pg example_documents (1, 0) (- 1) None 20
     [\<lparr>c_id = 2, c_content = Some ''cooking recipes'',
        c_source_url = Some ''https://b.example'', c_metadata = None,
        c_similarity = 1, c_bm25 = 0\<rparr>,
      \<lparr>c_id = 3, c_content = Some ''python cooking'',
        c_source_url = Some ''https://a.example'', c_metadata = None,
        c_similarity = 3 / 5, c_bm25 = 0\<rparr>,
      \<lparr>c_id = 1, c_content = Some ''python python tutorial'',
        c_source_url = Some ''https://a.example'', c_metadata = None,
        c_similarity = 0, c_bm25 = 0\<rparr>]
   \<and> keyword_results example_pg example_documents ''python'' None 20
     [\<lparr>c_id = 1, c_content = Some ''python python tutorial'',
        c_source_url = Some ''https://a.example'', c_metadata = None,
        c_similarity = 0, c_bm25 = 1 / 5\<rparr>,
      \<lparr>c_id = 3, c_content = Some ''python cooking'',
        c_source_url = Some ''https://a.example'', c_metadata = None,
        c_similarity = 0, c_bm25 = 1 / 10\<rparr>]
   \<and> fused_candidates example_pg example_documents (1, 0) ''python'' (- 1) 20 None
       (7 / 10) (3 / 10)
     [\<lparr>id' = 2, content = Some ''cooking recipes'',
        source_url = Some ''https://b.example'', metadata = None,
        similarity = 1, bm25_score = 0, combined_score = 7 / 10\<rparr>,
      \<lparr>id' = 3, content = Some ''python cooking'',
        source_url = Some ''https://a.example'', metadata = None,
        similarity = 3 / 5, bm25_score = 1 / 10, combined_score = 18 / 25\<rparr>,
      \<lparr>id' = 1, content = Some ''python python tutorial'',
        source_url = Some ''https://a.example'', metadata = None,
        similarity = 0, bm25_score = 1 / 5, combined_score = 3 / 5\<rparr>]"
proof (intro conjI)
  show "fused_candidates example_pg example_documents (1, 0) ''python'' (- 1) 20 None
       (7 / 10) (3 / 10)
     [\<lparr>id' = 2, content = Some ''cooking recipes'',
        source_url = Some ''https://b.example'', metadata = None,
        similarity = 1, bm25_score = 0, combined_score = 7 / 10\<rparr>,
      \<lparr>id' = 3, content = Some ''python cooking'',
        source_url = Some ''https://a.example'', metadata = None,
        similarity = 3 / 5, bm25_score = 1 / 10, combined_score = 18 / 25\<rparr>,
      \<lparr>id' = 1, content = Some ''python python tutorial'',
        source_url = Some ''https://a.example'', metadata = None,
        similarity = 0, bm25_score = 1 / 5, combined_score = 3 / 5\<rparr>]"
    by (rule fused_candidatesI [OF example_vector_results_low example_keyword_results])
      (simp add: combined_def full_outer_join_def coalesce_def)
qed (rule example_vector_results_low example_keyword_results)+

text \<open>
  Claim C1, amended. The rows of \<open>combined\<close> are keyed by the union of the ids of the
  vector candidates and of the lexical candidates: no id of either set is left out.
  The combined score of every row is its vector score times the vector weight plus its
  lexical score, scaled by 10, times the keyword weight. A row whose id is among the
  vector candidates carries the similarity of such a candidate, which exceeds the
  threshold, and so is not zero when the threshold is not negative (as the default 0.3);
  a row whose id is among the lexical candidates carries the \<open>ts_rank\<close> of a document
  with that id that matches the query, which is not zero where \<open>ts_rank\<close> is not zero on
  matching documents; a row whose id is missing from one set has exactly 0 for that
  score.
\<close>

theorem fused_candidates_scores:
  assumes "vector_results p documents qe thr flt n vs"
    and "keyword_results p documents qt flt n ks"
  shows "fused_candidates p documents qe qt thr n flt vw kw (combined vw kw vs ks)
   \<and> id' ` set (combined vw kw vs ks) = c_id ` set vs \<union> c_id ` set ks
   \<and> (\<forall>r\<in>set (combined vw kw vs ks).
         combined_score r = similarity r * vw + (bm25_score r * 10) * kw
         \<and> (id' r \<in> c_id ` set vs \<longrightarrow>
              (\<exists>v\<in>set vs. c_id v = id' r \<and> similarity r = c_similarity v)
              \<and> thr < similarity r
              \<and> (0 \<le> thr \<longrightarrow> similarity r \<noteq> 0))
         \<and> (id' r \<in> c_id ` set ks \<longrightarrow>
              (\<exists>k\<in>set ks. c_id k = id' r \<and> bm25_score r = c_bm25 k)
              \<and> (\<exists>d\<in>set documents. \<exists>c. d_id d = id' r \<and> d_content d = Some c
                    \<and> ts_match (to_tsvector p c) (plainto_tsquery p qt)
                    \<and> bm25_score r = ts_rank p (to_tsvector p c) (plainto_tsquery p qt))
              \<and> ((\<forall>tsv. ts_match tsv (plainto_tsquery p qt)
                          \<longrightarrow> ts_rank p tsv (plainto_tsquery p qt) \<noteq> 0)
                   \<longrightarrow> bm25_score r \<noteq> 0))
         \<and> (id' r \<notin> c_id ` set vs \<longrightarrow> similarity r = 0)
         \<and> (id' r \<notin> c_id ` set ks \<longrightarrow> bm25_score r = 0))"
proof -
  let ?C = "combined vw kw vs ks"
  have 0: "fused_candidates p documents qe qt thr n flt vw kw ?C"
    using assms by (rule fused_candidates.intros)
  have 1: "id' ` set ?C = c_id ` set vs \<union> c_id ` set ks"
    by (rule combined_ids)
  have 2: "combined_score r = similarity r * vw + (bm25_score r * 10) * kw
         \<and> (id' r \<in> c_id ` set vs \<longrightarrow>
              (\<exists>v\<in>set vs. c_id v = id' r \<and> similarity r = c_similarity v)
              \<and> thr < similarity r
              \<and> (0 \<le> thr \<longrightarrow> similarity r \<noteq> 0))
         \<and> (id' r \<in> c_id ` set ks \<longrightarrow>
              (\<exists>k\<in>set ks. c_id k = id' r \<and> bm25_score r = c_bm25 k)
              \<and> (\<exists>d\<in>set documents. \<exists>c. d_id d = id' r \<and> d_content d = Some c
                    \<and> ts_match (to_tsvector p c) (plainto_tsquery p qt)
                    \<and> bm25_score r = ts_rank p (to_tsvector p c) (plainto_tsquery p qt))
              \<and> ((\<forall>tsv. ts_match tsv (plainto_tsquery p qt)
                          \<longrightarrow> ts_rank p tsv (plainto_tsquery p qt) \<noteq> 0)
                   \<longrightarrow> bm25_score r \<noteq> 0))
         \<and> (id' r \<notin> c_id ` set vs \<longrightarrow> similarity r = 0)
         \<and> (id' r \<notin> c_id ` set ks \<longrightarrow> bm25_score r = 0)"
    if r: "r \<in> set ?C" for r
  proof -
    note s = combined_row_present [OF r]
    have a: "combined_score r = similarity r * vw + (bm25_score r * 10) * kw"
      using combined_score_formula [OF r] by simp
    have b: "(\<exists>v\<in>set vs. c_id v = id' r \<and> similarity r = c_similarity v)
              \<and> thr < similarity r \<and> (0 \<le> thr \<longrightarrow> similarity r \<noteq> 0)"
      if "id' r \<in> c_id ` set vs"
    proof -
      from s(1) [OF that] obtain v where v: "v \<in> set vs" "c_id v = id' r"
        "similarity r = c_similarity v" by blast
      from vector_results_mem [OF assms(1) v(1)] obtain d dst
        where "vector_match p qe thr flt d = Some (dst, v)" by blast
      from vector_match_Some(2) [OF this] v(3) have "thr < similarity r" by simp
      with v show ?thesis by auto
    qed
    have c: "(\<exists>k\<in>set ks. c_id k = id' r \<and> bm25_score r = c_bm25 k)
              \<and> (\<exists>d\<in>set documents. \<exists>c. d_id d = id' r \<and> d_content d = Some c
                    \<and> ts_match (to_tsvector p c) (plainto_tsquery p qt)
                    \<and> bm25_score r = ts_rank p (to_tsvector p c) (plainto_tsquery p qt))
              \<and> ((\<forall>tsv. ts_match tsv (plainto_tsquery p qt)
                          \<longrightarrow> ts_rank p tsv (plainto_tsquery p qt) \<noteq> 0)
                   \<longrightarrow> bm25_score r \<noteq> 0)"
      if "id' r \<in> c_id ` set ks"
    proof -
      from s(2) [OF that] obtain k where k: "k \<in> set ks" "c_id k = id' r"
        "bm25_score r = c_bm25 k" by blast
      from keyword_results_mem [OF assms(2) k(1)] obtain d
        where d: "d \<in> set documents" and m: "keyword_match p qt flt d = Some k" by blast
      from keyword_match_Some(4) [OF m] obtain c where c: "d_content d = Some c"
        "ts_match (to_tsvector p c) (plainto_tsquery p qt)"
        "c_bm25 k = ts_rank p (to_tsvector p c) (plainto_tsquery p qt)" by blast
      from keyword_match_Some(1) [OF m] k(2) have i: "d_id d = id' r" by simp
      from k(3) c(3)
      have e: "bm25_score r = ts_rank p (to_tsvector p c) (plainto_tsquery p qt)" by simp
      have 1: "\<exists>k\<in>set ks. c_id k = id' r \<and> bm25_score r = c_bm25 k"
        using k by blast
      have 2: "\<exists>d\<in>set documents. \<exists>c. d_id d = id' r \<and> d_content d = Some c
                    \<and> ts_match (to_tsvector p c) (plainto_tsquery p qt)
                    \<and> bm25_score r = ts_rank p (to_tsvector p c) (plainto_tsquery p qt)"
        using d i c(1,2) e by blast
      have 3: "bm25_score r \<noteq> 0"
        if "\<forall>tsv. ts_match tsv (plainto_tsquery p qt)
                          \<longrightarrow> ts_rank p tsv (plainto_tsquery p qt) \<noteq> 0"
        using that c(2) e by simp
      from 1 2 3 show ?thesis by blast
    qed
    from a b c s(3) s(4) show ?thesis by blast
  qed
  from 0 1 2 show ?thesis by blast
qed

lemma example_ts_rank_nonzero:
  "\<forall>tsv. ts_match tsv (plainto_tsquery example_pg ''python'')
       \<longrightarrow> ts_rank example_pg tsv (plainto_tsquery example_pg ''python'') \<noteq> 0"
  by (auto simp: ts_match_def plainto_tsquery_def example_pg_def filter_empty_conv)

theorem fused_candidates_scores_witness:
  "vector_results example_pg example_documents (1, 0) (3 / 10) None 20
     [\<lparr>c_id = 2, c_content = Some ''cooking recipes'',
        c_source_url = Some ''https://b.example'', c_metadata = None,
        c_similarity = 1, c_bm25 = 0\<rparr>,
      \<lparr>c_id = 3, c_content = Some ''python cooking'',
        c_source_url = Some ''https://a.example'', c_metadata = None,
        c_similarity = 3 / 5, c_bm25 = 0\<rparr>]
   \<and> keyword_results example_pg example_documents ''python'' None 20
     [\<lparr>c_id = 1, c_content = Some ''python python tutorial'',
        c_source_url = Some ''https://a.example'', c_metadata = None,
        c_similarity = 0, c_bm25 = 1 / 5\<rparr>,
      \<lparr>c_id = 3, c_content = Some ''python cooking'',
        c_source_url = Some ''https://a.example'', c_metadata = None,
        c_similarity = 0, c_bm25 = 1 / 10\<rparr>]
   \<and> fused_candidates example_pg example_documents (1, 0) ''python'' (3 / 10) 20 None
       (7 / 10) (3 / 10)
     [\<lparr>id' = 2, content = Some ''cooking recipes'',
        source_url = Some ''https://b.example'', metadata = None,
        similarity = 1, bm25_score = 0, combined_score = 7 / 10\<rparr>,
      \<lparr>id' = 3, content = Some ''python cooking'',
        source_url = Some ''https://a.example'', metadata = None,
        similarity = 3 / 5, bm25_score = 1 / 10, combined_score = 18 / 25\<rparr>,
      \<lparr>id' = 1, content = Some ''python python tutorial'',
        source_url = Some ''https://a.example'', metadata = None,
        similarity = 0, bm25_score = 1 / 5, combined_score = 3 / 5\<rparr>]
   \<and> (18 / 25 :: real) = 3 / 5 * (7 / 10) + (1 / 10 * 10) * (3 / 10)
   \<and> (3 / 10 :: real) < 3 / 5 \<and> (3 / 5 :: real) \<noteq> 0 \<and> (1 / 10 :: real) \<noteq> 0"
proof -
  let ?f2 = "\<lparr>id' = 2, content = Some ''cooking recipes'',
        source_url = Some ''https://b.example'', metadata = None,
        similarity = 1, bm25_score = 0, combined_score = 7 / 10\<rparr>"
  let ?f3 = "\<lparr>id' = 3, content = Some ''python cooking'',
        source_url = Some ''https://a.example'', metadata = None,
        similarity = 3 / 5, bm25_score = 1 / 10, combined_score = 18 / 25\<rparr>"
  let ?f1 = "\<lparr>id' = 1, content = Some ''python python tutorial'',
        source_url = Some ''https://a.example'', metadata = None,
        similarity = 0, bm25_score = 1 / 5, combined_score = 3 / 5\<rparr>"
  note t = fused_candidates_scores [OF example_vector_results example_keyword_results,
      of "7 / 10" "3 / 10", unfolded example_combined]
  note fused = conjunct1 [OF t]
  note rows = conjunct2 [OF conjunct2 [OF t]]
  have "?f3 \<in> set [?f2, ?f3, ?f1]" by simp
  note h = bspec [OF rows this]
  note formula = conjunct1 [OF h]
  note vec = conjunct1 [OF conjunct2 [OF h]]
  note lex = conjunct1 [OF conjunct2 [OF conjunct2 [OF h]]]
  from formula have a: "(18 / 25 :: real) = 3 / 5 * (7 / 10) + (1 / 10 * 10) * (3 / 10)"
    by simp
  from vec have b: "(3 / 10 :: real) < 3 / 5 \<and> (3 / 5 :: real) \<noteq> 0"
    by simp
  from lex example_ts_rank_nonzero have c: "(1 / 10 :: real) \<noteq> 0"
    by simp
  show ?thesis
  proof (intro conjI)
    show "(18 / 25 :: real) = 3 / 5 * (7 / 10) + (1 / 10 * 10) * (3 / 10)" by (rule a)
    show "(3 / 10 :: real) < 3 / 5" using b by (rule conjunct1)
    show "(3 / 5 :: real) \<noteq> 0" using b by (rule conjunct2)
    show "(1 / 10 :: real) \<noteq> 0" by (rule c)
  qed (rule example_vector_results example_keyword_results fused)+
qed

subsection \<open>Lexical-only search against hybrid search\<close>

lemma tied_vector_matches:
  "List.map_filter (vector_match example_pg (1, 0) (3 / 10) None) tied_documents =
     [(0, \<lparr>c_id = 2, c_content = Some ''python'',
           c_source_url = Some ''https://a.example'', c_metadata = None,
           c_similarity = 1, c_bm25 = 0\<rparr>),
      (0, \<lparr>c_id = 1, c_content = Some ''python'',
           c_source_url = Some ''https://a.example'', c_metadata = None,
           c_similarity = 1, c_bm25 = 0\<rparr>)]"
  by (simp add: sql_defs tied_documents_def example_pg_def)

lemma tied_keyword_matches:
  "List.map_filter (keyword_match example_pg ''python'' None) tied_documents =
     [\<lparr>c_id = 2, c_content = Some ''python'',
        c_source_url = Some ''https://a.example'', c_metadata = None,
        c_similarity = 0, c_bm25 = 1 / 10\<rparr>,
      \<lparr>c_id = 1, c_content = Some ''python'',
        c_source_url = Some ''https://a.example'', c_metadata = None,
        c_similarity = 0, c_bm25 = 1 / 10\<rparr>,
      \<lparr>c_id = 3, c_content = Some ''python'',
        c_source_url = Some ''https://a.example'', c_metadata = None,
        c_similarity = 0, c_bm25 = 1 / 10\<rparr>]"
  by (simp add: sql_defs tied_documents_def example_pg_def)

lemma example_keyword_query_1:
  "keyword_search_query example_pg example_documents ''python'' 1 None
     (Inr [\<lparr>k_id = 1, k_content = Some ''python python tutorial'',
             k_source_url = Some ''https://a.example'', k_metadata = None,
             k_rank = 1 / 5\<rparr>])"
  by (rule keyword_search_queryI [OF _ example_keyword_matches refl, of _ 1])
    (simp_all add: limit_rows_def keyword_row_of_def)

lemma example_keyword_query_10:
  "keyword_search_query example_pg example_documents ''python'' 10 None
     (Inr [\<lparr>k_id = 1, k_content = Some ''python python tutorial'',
             k_source_url = Some ''https://a.example'', k_metadata = None,
             k_rank = 1 / 5\<rparr>,
           \<lparr>k_id = 3, k_content = Some ''python cooking'',
             k_source_url = Some ''https://a.example'', k_metadata = None,
             k_rank = 1 / 10\<rparr>])"
  by (rule keyword_search_queryI [OF _ example_keyword_matches refl, of _ 10])
    (simp_all add: limit_rows_def keyword_row_of_def)

lemma example_fused_2:
  "fused_candidates example_pg example_documents (1, 0) ''python'' (3 / 10) 2 None
       (7 / 10) (3 / 10)
     [\<lparr>id' = 2, content = Some ''cooking recipes'',
        source_url = Some ''https://b.example'', metadata = None,
        similarity = 1, bm25_score = 0, combined_score = 7 / 10\<rparr>,
      \<lparr>id' = 3, content = Some ''python cooking'',
        source_url = Some ''https://a.example'', metadata = None,
        similarity = 3 / 5, bm25_score = 1 / 10, combined_score = 18 / 25\<rparr>,
      \<lparr>id' = 1, content = Some ''python python tutorial'',
        source_url = Some ''https://a.example'', metadata = None,
        similarity = 0, bm25_score = 1 / 5, combined_score = 3 / 5\<rparr>]"
proof (rule fused_candidatesI)
  show "vector_results example_pg example_documents (1, 0) (3 / 10) None 2
     [\<lparr>c_id = 2, c_content = Some ''cooking recipes'',
        c_source_url = Some ''https://b.example'', c_metadata = None,
        c_similarity = 1, c_bm25 = 0\<rparr>,
      \<lparr>c_id = 3, c_content = Some ''python cooking'',
        c_source_url = Some ''https://a.example'', c_metadata = None,
        c_similarity = 3 / 5, c_bm25 = 0\<rparr>]"
    by (rule vector_resultsI [OF example_vector_matches refl]) simp_all
  show "keyword_results example_pg example_documents ''python'' None 2
     [\<lparr>c_id = 1, c_content = Some ''python python tutorial'',
        c_source_url = Some ''https://a.example'', c_metadata = None,
        c_similarity = 0, c_bm25 = 1 / 5\<rparr>,
      \<lparr>c_id = 3, c_content = Some ''python cooking'',
        c_source_url = Some ''https://a.example'', c_metadata = None,
        c_similarity = 0, c_bm25 = 1 / 10\<rparr>]"
    by (rule keyword_resultsI [OF example_keyword_matches refl]) simp_all
qed (simp add: example_combined)

lemma example_fused_20:
  "fused_candidates example_pg example_documents (1, 0) ''python'' (3 / 10) 20 None
       (7 / 10) (3 / 10)
     [\<lparr>id' = 2, content = Some ''cooking recipes'',
        source_url = Some ''https://b.example'', metadata = None,
        similarity = 1, bm25_score = 0, combined_score = 7 / 10\<rparr>,
      \<lparr>id' = 3, content = Some ''python cooking'',
        source_url = Some ''https://a.example'', metadata = None,
        similarity = 3 / 5, bm25_score = 1 / 10, combined_score = 18 / 25\<rparr>,
      \<lparr>id' = 1, content = Some ''python python tutorial'',
        source_url = Some ''https://a.example'', metadata = None,
        similarity = 0, bm25_score = 1 / 5, combined_score = 3 / 5\<rparr>]"
  by (rule fused_candidatesI [OF example_vector_results example_keyword_results])
    (simp add: example_combined)

lemma example_hybrid_query_1:
  "hybrid_search_query example_pg example_documents (1, 0) ''python'' (3 / 10) 1 None
       (7 / 10) (3 / 10)
     (Inr [\<lparr>id' = 3, content = Some ''python cooking'',
             source_url = Some ''https://a.example'', metadata = None,
             similarity = 3 / 5, bm25_score = 1 / 10, combined_score = 18 / 25\<rparr>])"
proof (rule hybrid_search_queryI [OF _ _ example_fused_2, of _ 1])
  show "order_limit 1
     [\<lparr>id' = 2, content = Some ''cooking recipes'',
        source_url = Some ''https://b.example'', metadata = None,
        similarity = 1, bm25_score = 0, combined_score = 7 / 10\<rparr>,
      \<lparr>id' = 3, content = Some ''python cooking'',
        source_url = Some ''https://a.example'', metadata = None,
        similarity = 3 / 5, bm25_score = 1 / 10, combined_score = 18 / 25\<rparr>,
      \<lparr>id' = 1, content = Some ''python python tutorial'',
        source_url = Some ''https://a.example'', metadata = None,
        similarity = 0, bm25_score = 1 / 5, combined_score = 3 / 5\<rparr>]
     [\<lparr>id' = 3, content = Some ''python cooking'',
        source_url = Some ''https://a.example'', metadata = None,
        similarity = 3 / 5, bm25_score = 1 / 10, combined_score = 18 / 25\<rparr>]"
    by (rule order_limitI [of
        "[\<lparr>id' = 3, content = Some ''python cooking'',
            source_url = Some ''https://a.example'', metadata = None,
            similarity = 3 / 5, bm25_score = 1 / 10, combined_score = 18 / 25\<rparr>,
          \<lparr>id' = 2, content = Some ''cooking recipes'',
            source_url = Some ''https://b.example'', metadata = None,
            similarity = 1, bm25_score = 0, combined_score = 7 / 10\<rparr>,
          \<lparr>id' = 1, content = Some ''python python tutorial'',
            source_url = Some ''https://a.example'', metadata = None,
            similarity = 0, bm25_score = 1 / 5, combined_score = 3 / 5\<rparr>]"])
      simp_all
qed (simp_all add: limit_rows_def candidate_limit_def int4_mul_def)

lemma example_hybrid_query_10:
  "hybrid_search_query example_pg example_documents (1, 0) ''python'' (3 / 10) 10 None
       (7 / 10) (3 / 10)
     (Inr [\<lparr>id' = 3, content = Some ''python cooking'',
             source_url = Some ''https://a.example'', metadata = None,
             similarity = 3 / 5, bm25_score = 1 / 10, combined_score = 18 / 25\<rparr>,
           \<lparr>id' = 2, content = Some ''cooking recipes'',
             source_url = Some ''https://b.example'', metadata = None,
             similarity = 1, bm25_score = 0, combined_score = 7 / 10\<rparr>,
           \<lparr>id' = 1, content = Some ''python python tutorial'',
             source_url = Some ''https://a.example'', metadata = None,
             similarity = 0, bm25_score = 1 / 5, combined_score = 3 / 5\<rparr>])"
proof (rule hybrid_search_queryI [OF _ _ example_fused_20, of _ 10])
  show "order_limit 10
     [\<lparr>id' = 2, content = Some ''cooking recipes'',
        source_url = Some ''https://b.example'', metadata = None,
        similarity = 1, bm25_score = 0, combined_score = 7 / 10\<rparr>,
      \<lparr>id' = 3, content = Some ''python cooking'',
        source_url = Some ''https://a.example'', metadata = None,
        similarity = 3 / 5, bm25_score = 1 / 10, combined_score = 18 / 25\<rparr>,
      \<lparr>id' = 1, content = Some ''python python tutorial'',
        source_url = Some ''https://a.example'', metadata = None,
        similarity = 0, bm25_score = 1 / 5, combined_score = 3 / 5\<rparr>]
     [\<lparr>id' = 3, content = Some ''python cooking'',
        source_url = Some ''https://a.example'', metadata = None,
        similarity = 3 / 5, bm25_score = 1 / 10, combined_score = 18 / 25\<rparr>,
      \<lparr>id' = 2, content = Some ''cooking recipes'',
        source_url = Some ''https://b.example'', metadata = None,
        similarity = 1, bm25_score = 0, combined_score = 7 / 10\<rparr>,
      \<lparr>id' = 1, content = Some ''python python tutorial'',
        source_url = Some ''https://a.example'', metadata = None,
        similarity = 0, bm25_score = 1 / 5, combined_score = 3 / 5\<rparr>]"
    by (rule order_limitI [of
        "[\<lparr>id' = 3, content = Some ''python cooking'',
            source_url = Some ''https://a.example'', metadata = None,
            similarity = 3 / 5, bm25_score = 1 / 10, combined_score = 18 / 25\<rparr>,
          \<lparr>id' = 2, content = Some ''cooking recipes'',
            source_url = Some ''https://b.example'', metadata = None,
            similarity = 1, bm25_score = 0, combined_score = 7 / 10\<rparr>,
          \<lparr>id' = 1, content = Some ''python python tutorial'',
            source_url = Some ''https://a.example'', metadata = None,
            similarity = 0, bm25_score = 1 / 5, combined_score = 3 / 5\<rparr>]"])
      simp_all
qed (simp_all add: limit_rows_def candidate_limit_def int4_mul_def)

lemma tied_keyword_query_1:
  "keyword_search_query example_pg tied_documents ''python'' 1 None
     (Inr [\<lparr>k_id = 3, k_content = Some ''python'',
             k_source_url = Some ''https://a.example'', k_metadata = None,
             k_rank = 1 / 10\<rparr>])"
  by (rule keyword_search_queryI [OF _ tied_keyword_matches, of _ 1
        "[\<lparr>c_id = 3, c_content = Some ''python'',
            c_source_url = Some ''https://a.example'', c_metadata = None,
            c_similarity = 0, c_bm25 = 1 / 10\<rparr>,
          \<lparr>c_id = 2, c_content = Some ''python'',
            c_source_url = Some ''https://a.example'', c_metadata = None,
            c_similarity = 0, c_bm25 = 1 / 10\<rparr>,
          \<lparr>c_id = 1, c_content = Some ''python'',
            c_source_url = Some ''https://a.example'', c_metadata = None,
            c_similarity = 0, c_bm25 = 1 / 10\<rparr>]"])
    (simp_all add: limit_rows_def keyword_row_of_def)

lemma tied_fused_2:
  "fused_candidates example_pg tied_documents (1, 0) ''python'' (3 / 10) 2 None
       (7 / 10) (3 / 10)
     [\<lparr>id' = 2, content = Some ''python'',
        source_url = Some ''https://a.example'', metadata = None,
        similarity = 1, bm25_score = 1 / 10, combined_score = 1\<rparr>,
      \<lparr>id' = 1, content = Some ''python'',
        source_url = Some ''https://a.example'', metadata = None,
        similarity = 1, bm25_score = 1 / 10, combined_score = 1\<rparr>]"
proof (rule fused_candidatesI)
  show "vector_results example_pg tied_documents (1, 0) (3 / 10) None 2
     [\<lparr>c_id = 2, c_content = Some ''python'',
        c_source_url = Some ''https://a.example'', c_metadata = None,
        c_similarity = 1, c_bm25 = 0\<rparr>,
      \<lparr>c_id = 1, c_content = Some ''python'',
        c_source_url = Some ''https://a.example'', c_metadata = None,
        c_similarity = 1, c_bm25 = 0\<rparr>]"
    by (rule vector_resultsI [OF tied_vector_matches refl]) simp_all
  show "keyword_results example_pg tied_documents ''python'' None 2
     [\<lparr>c_id = 2, c_content = Some ''python'',
        c_source_url = Some ''https://a.example'', c_metadata = None,
        c_similarity = 0, c_bm25 = 1 / 10\<rparr>,
      \<lparr>c_id = 1, c_content = Some ''python'',
        c_source_url = Some ''https://a.example'', c_metadata = None,
        c_similarity = 0, c_bm25 = 1 / 10\<rparr>]"
    by (rule keyword_resultsI [OF tied_keyword_matches refl]) simp_all
qed (simp add: combined_def full_outer_join_def coalesce_def)

lemma tied_hybrid_query_1:
  "hybrid_search_query example_pg tied_documents (1, 0) ''python'' (3 / 10) 1 None
       (7 / 10) (3 / 10)
     (Inr [\<lparr>id' = 2, content = Some ''python'',
             source_url = Some ''https://a.example'', metadata = None,
             similarity = 1, bm25_score = 1 / 10, combined_score = 1\<rparr>])"
  by (rule hybrid_search_queryI [OF _ _ tied_fused_2 order_limitI [OF refl], of _ 1])
    (simp_all add: limit_rows_def candidate_limit_def int4_mul_def)

lemma order_limit_short:
  assumes "order_limit n cs rs" and "length rs < n"
  shows "set rs = set cs"
proof -
  from assms(1) obtain ys where ys: "ordered_by (\<lambda>c. - combined_score c) cs ys"
    and rs: "rs = take n ys"
    by (auto simp: order_limit.simps)
  from assms(2) rs have "rs = ys" by simp
  with ordered_by_set [OF ys] show ?thesis by simp
qed

lemma take_ordered_by_subset:
  assumes ys: "ordered_by k xs ys" and zs: "ordered_by k xs zs" and mn: "m \<le> n"
    and ties: "inj_on k (set xs) \<or> length xs \<le> n"
  shows "set (take m ys) \<subseteq> set (take n zs)"
  using ties
proof
  assume "inj_on k (set xs)"
  from ordered_by_unique [OF ys this] ordered_by_unique [OF zs this]
  have "ys = zs" by simp
  with mn show ?thesis by (simp add: set_take_subset_set_take)
next
  assume "length xs \<le> n"
  with ordered_by_length [OF zs] have "take n zs = zs" by simp
  moreover have "set (take m ys) \<subseteq> set ys" by (rule set_take_subset)
  ultimately show ?thesis
    using ordered_by_set [OF ys] ordered_by_set [OF zs] by simp
qed

lemma keyword_row_of_ids: "k_id ` set (map keyword_row_of ks) = c_id ` set ks"
  by (simp add: image_image keyword_row_of_def)

text \<open>
  Claim C3, as stated: the ids of the lexical-only search are among the ids of a hybrid
  search with the same text, filter and count. Both functions raise on every call;
  what is compared are the rows their queries select.
  With the count 1, the lexical query selects document 1 and the hybrid query document
  3, whose combined score is higher: the final \<open>LIMIT\<close> drops document 1.
  And where documents tie in the lexical rank, the two queries may cut the tie
  differently: of three documents with equal rank, the lexical query with the count 1
  may select document 3 while the lexical candidates of the hybrid query are documents 2
  and 1, so that document 3 is not even a fused candidate.
\<close>

theorem lexical_only_not_subset_counterexample:
  "keyword_search_query example_pg example_documents ''python'' 1 None
     (Inr [\<lparr>k_id = 1, k_content = Some ''python python tutorial'',
             k_source_url = Some ''https://a.example'', k_metadata = None,
             k_rank = 1 / 5\<rparr>])
   \<and> hybrid_search_query example_pg example_documents (1, 0) ''python'' (3 / 10) 1 None
       (7 / 10) (3 / 10)
     (Inr [\<lparr>id' = 3, content = Some ''python cooking'',
             source_url = Some ''https://a.example'', metadata = None,
             similarity = 3 / 5, bm25_score = 1 / 10, combined_score = 18 / 25\<rparr>])
   \<and> keyword_search_query example_pg tied_documents ''python'' 1 None
     (Inr [\<lparr>k_id = 3, k_content = Some ''python'',
             k_source_url = Some ''https://a.example'', k_metadata = None,
             k_rank = 1 / 10\<rparr>])
   \<and> fused_candidates example_pg tied_documents (1, 0) ''python'' (3 / 10) 2 None
       (7 / 10) (3 / 10)
     [\<lparr>id' = 2, content = Some ''python'',
        source_url = Some ''https://a.example'', metadata = None,
        similarity = 1, bm25_score = 1 / 10, combined_score = 1\<rparr>,
      \<lparr>id' = 1, content = Some ''python'',
        source_url = Some ''https://a.example'', metadata = None,
        similarity = 1, bm25_score = 1 / 10, combined_score = 1\<rparr>]
   \<and> hybrid_search_query example_pg tied_documents (1, 0) ''python'' (3 / 10) 1 None
       (7 / 10) (3 / 10)
     (Inr [\<lparr>id' = 2, content = Some ''python'',
             source_url = Some ''https://a.example'', metadata = None,
             similarity = 1, bm25_score = 1 / 10, combined_score = 1\<rparr>])"
  by (intro conjI example_keyword_query_1 example_hybrid_query_1 tied_keyword_query_1
        tied_fused_2 tied_hybrid_query_1)

text \<open>
  Claim C3, amended. Take the query text, the filter and the count the same for both
  queries, and let the lexical ranks of the matching documents be pairwise distinct, or
  the matching documents be at most twice the count. Then every id the lexical-only
  query selects is the id of a fused candidate of the hybrid query, whatever its
  candidates are; and it is among the rows the hybrid query selects whenever these are
  fewer than the count, or the fused candidates at most the count. Otherwise the final
  \<open>LIMIT\<close> may drop it.
\<close>

theorem keyword_ids_subset_fused:
  assumes "keyword_search_query p documents qt mc flt (Inr ks)"
    and "hybrid_search_query p documents qe qt thr mc flt vw kw (Inr rs)"
    and "inj_on c_bm25 (set (List.map_filter (keyword_match p qt flt) documents))
         \<or> length (List.map_filter (keyword_match p qt flt) documents) \<le> nat (mc * 2)"
  shows "(\<forall>cs. fused_candidates p documents qe qt thr (nat (mc * 2)) flt vw kw cs
            \<longrightarrow> k_id ` set ks \<subseteq> id' ` set cs)
    \<and> (\<exists>cs. fused_candidates p documents qe qt thr (nat (mc * 2)) flt vw kw cs
            \<and> order_limit (nat mc) cs rs)
    \<and> (length rs < nat mc
        \<or> (\<exists>cs. fused_candidates p documents qe qt thr (nat (mc * 2)) flt vw kw cs
                \<and> order_limit (nat mc) cs rs \<and> length cs \<le> nat mc)
        \<longrightarrow> k_id ` set ks \<subseteq> id' ` set rs)"
proof -
  let ?M = "List.map_filter (keyword_match p qt flt) documents"
  let ?F = "fused_candidates p documents qe qt thr (nat (mc * 2)) flt vw kw"
  from assms(1) obtain ys where mc: "0 \<le> mc"
    and ys: "ordered_by (\<lambda>k. - c_bm25 k) ?M ys"
    and ks: "ks = map keyword_row_of (take (nat mc) ys)"
    by (auto simp: keyword_search_query_Inr)
  from assms(3) have ties: "inj_on (\<lambda>k. - c_bm25 k) (set ?M) \<or> length ?M \<le> nat (mc * 2)"
    by (auto simp: inj_on_def)
  have 1: "k_id ` set ks \<subseteq> id' ` set cs" if "?F cs" for cs
  proof -
    from that obtain vs ks' where cs: "cs = combined vw kw vs ks'"
      and k': "keyword_results p documents qt flt (nat (mc * 2)) ks'"
      by (auto simp: fused_candidates.simps)
    from k' obtain zs where zs: "ordered_by (\<lambda>k. - c_bm25 k) ?M zs"
      and ks': "ks' = take (nat (mc * 2)) zs"
      by (auto simp: keyword_results.simps)
    from mc have "nat mc \<le> nat (mc * 2)" by simp
    from take_ordered_by_subset [OF ys zs this ties]
    have "set (take (nat mc) ys) \<subseteq> set ks'" by (simp add: ks')
    then have "c_id ` set (take (nat mc) ys) \<subseteq> c_id ` set ks'" by (rule image_mono)
    then have "k_id ` set ks \<subseteq> c_id ` set ks'"
      by (simp only: ks keyword_row_of_ids)
    also have "\<dots> \<subseteq> id' ` set cs"
      by (simp add: cs combined_ids)
    finally show ?thesis .
  qed
  from assms(2) obtain cs0 where cs0: "?F cs0" "order_limit (nat mc) cs0 rs"
    by (auto simp: hybrid_search_query_Inr)
  then have 2: "\<exists>cs. ?F cs \<and> order_limit (nat mc) cs rs" by blast
  have 3: "k_id ` set ks \<subseteq> id' ` set rs"
    if "length rs < nat mc \<or> (\<exists>cs. ?F cs \<and> order_limit (nat mc) cs rs \<and> length cs \<le> nat mc)"
    using that
  proof
    assume "length rs < nat mc"
    from order_limit_short [OF cs0(2) this] 1 [OF cs0(1)] show ?thesis by simp
  next
    assume "\<exists>cs. ?F cs \<and> order_limit (nat mc) cs rs \<and> length cs \<le> nat mc"
    then obtain cs where cs: "?F cs" "order_limit (nat mc) cs rs" "length cs \<le> nat mc"
      by blast
    from order_limit_props(4) [OF cs(2) cs(3)] 1 [OF cs(1)] show ?thesis by simp
  qed
  from 1 2 3 show ?thesis by blast
qed

theorem keyword_ids_subset_fused_witness:
  "keyword_search_query example_pg example_documents ''python'' 10 None
     (Inr [\<lparr>k_id = 1, k_content = Some ''python python tutorial'',
             k_source_url = Some ''https://a.example'', k_metadata = None,
             k_rank = 1 / 5\<rparr>,
           \<lparr>k_id = 3, k_content = Some ''python cooking'',
             k_source_url = Some ''https://a.example'', k_metadata = None,
             k_rank = 1 / 10\<rparr>])
   \<and> hybrid_search_query example_pg example_documents (1, 0) ''python'' (3 / 10) 10 None
       (7 / 10) (3 / 10)
     (Inr [\<lparr>id' = 3, content = Some ''python cooking'',
             source_url = Some ''https://a.example'', metadata = None,
             similarity = 3 / 5, bm25_score = 1 / 10, combined_score = 18 / 25\<rparr>,
           \<lparr>id' = 2, content = Some ''cooking recipes'',
             source_url = Some ''https://b.example'', metadata = None,
             similarity = 1, bm25_score = 0, combined_score = 7 / 10\<rparr>,
           \<lparr>id' = 1, content = Some ''python python tutorial'',
             source_url = Some ''https://a.example'', metadata = None,
             similarity = 0, bm25_score = 1 / 5, combined_score = 3 / 5\<rparr>])
   \<and> inj_on c_bm25
       (set (List.map_filter (keyword_match example_pg ''python'' None) example_documents))
   \<and> {1, 3} \<subseteq> {3, 2, 1 :: int}"
proof -
  have i: "inj_on c_bm25
       (set (List.map_filter (keyword_match example_pg ''python'' None) example_documents))"
    by (simp add: example_keyword_matches)
  note t = keyword_ids_subset_fused [OF example_keyword_query_10 example_hybrid_query_10
      disjI1 [OF i]]
  note c = conjunct2 [OF conjunct2 [OF t]]
  have "{1, 3} \<subseteq> {3, 2, 1 :: int}"
    using c by simp
  with i show ?thesis
    by (intro conjI example_keyword_query_10 example_hybrid_query_10)
qed

subsection \<open>Ties in the combined score\<close>

lemma fused_candidates_unique:
  assumes "inj_on fst (set (List.map_filter (vector_match p qe thr flt) documents))"
    and "inj_on c_bm25 (set (List.map_filter (keyword_match p qt flt) documents))"
    and "fused_candidates p documents qe qt thr n flt vw kw cs"
    and "fused_candidates p documents qe qt thr n flt vw kw cs'"
  shows "cs = cs'"
proof -
  let ?V = "List.map_filter (vector_match p qe thr flt) documents"
  let ?K = "List.map_filter (keyword_match p qt flt) documents"
  from assms(2) have k: "inj_on (\<lambda>k. - c_bm25 k) (set ?K)"
    by (auto simp: inj_on_def)
  have vs: "vs = map snd (take n (sort_key fst ?V))"
    if "vector_results p documents qe thr flt n vs" for vs
    using that ordered_by_unique [OF _ assms(1)] by (auto simp: vector_results.simps)
  have ks: "ks = take n (sort_key (\<lambda>k. - c_bm25 k) ?K)"
    if "keyword_results p documents qt flt n ks" for ks
    using that ordered_by_unique [OF _ k] by (auto simp: keyword_results.simps)
  from assms(3) obtain vs ks where cs: "cs = combined vw kw vs ks"
    and "vector_results p documents qe thr flt n vs"
    and "keyword_results p documents qt flt n ks"
    by (auto simp: fused_candidates.simps)
  moreover from assms(4) obtain vs' ks' where cs': "cs' = combined vw kw vs' ks'"
    and "vector_results p documents qe thr flt n vs'"
    and "keyword_results p documents qt flt n ks'"
    by (auto simp: fused_candidates.simps)
  ultimately show ?thesis
    using vs [of vs] vs [of vs'] ks [of ks] ks [of ks'] by simp
qed

lemma order_limit_unique:
  assumes "order_limit n cs rs" and "order_limit n cs rs'"
    and "inj_on combined_score (set cs)"
  shows "rs = rs'"
proof -
  from assms(3) have i: "inj_on (\<lambda>c. - combined_score c) (set cs)"
    by (auto simp: inj_on_def)
  from assms(1) obtain ys where "ordered_by (\<lambda>c. - combined_score c) cs ys" "rs = take n ys"
    by (auto simp: order_limit.simps)
  moreover from assms(2) obtain zs where "ordered_by (\<lambda>c. - combined_score c) cs zs"
    "rs' = take n zs"
    by (auto simp: order_limit.simps)
  ultimately show ?thesis
    using ordered_by_unique [OF _ i, of ys] ordered_by_unique [OF _ i, of zs] by simp
qed

lemma order_limit_scores:
  assumes "order_limit n cs rs" and "order_limit n cs rs'"
  shows "map combined_score rs = map combined_score rs'"
proof -
  from assms(1) obtain ys where ys: "ordered_by (\<lambda>c. - combined_score c) cs ys"
    and rs: "rs = take n ys"
    by (auto simp: order_limit.simps)
  from assms(2) obtain zs where zs: "ordered_by (\<lambda>c. - combined_score c) cs zs"
    and rs': "rs' = take n zs"
    by (auto simp: order_limit.simps)
  note e = ordered_by_keys [OF ys zs]
  have "map combined_score ys = map (\<lambda>x. - x) (map (\<lambda>c. - combined_score c) ys)"
    by (simp add: comp_def)
  also have "\<dots> = map (\<lambda>x. - x) (map (\<lambda>c. - combined_score c) zs)"
    by (simp only: e)
  also have "\<dots> = map combined_score zs"
    by (simp add: comp_def)
  finally have "take n (map combined_score ys) = take n (map combined_score zs)"
    by (rule arg_cong)
  then show ?thesis
    unfolding rs rs' take_map .
qed

lemma example_fused_tie:
  "fused_candidates example_pg example_documents (1, 0) ''python'' (3 / 10) 20 None
       (1 / 2) (1 / 5)
     [\<lparr>id' = 2, content = Some ''cooking recipes'',
        source_url = Some ''https://b.example'', metadata = None,
        similarity = 1, bm25_score = 0, combined_score = 1 / 2\<rparr>,
      \<lparr>id' = 3, content = Some ''python cooking'',
        source_url = Some ''https://a.example'', metadata = None,
        similarity = 3 / 5, bm25_score = 1 / 10, combined_score = 1 / 2\<rparr>,
      \<lparr>id' = 1, content = Some ''python python tutorial'',
        source_url = Some ''https://a.example'', metadata = None,
        similarity = 0, bm25_score = 1 / 5, combined_score = 2 / 5\<rparr>]"
  by (rule fused_candidatesI [OF example_vector_results example_keyword_results])
    (simp add: combined_def full_outer_join_def coalesce_def)

text \<open>
  Claim C4, as stated: ties in the combined score are broken by vector score, then by
  block identifier, so that the order is determined. The function raises on every call;
  its query ends in \<open>ORDER BY c.combined_score DESC\<close> and nothing more. With the weights
  0.5 and 0.2, documents 2 and 3 tie at the combined score 0.5, with the vector scores 1
  and 0.6: the query may select document 2 first, and it may as well select document 3
  first, the one with the lower vector score.
\<close>

theorem tie_order_counterexample:
  "hybrid_search_query example_pg example_documents (1, 0) ''python'' (3 / 10) 10 None
       (1 / 2) (1 / 5)
     (Inr [\<lparr>id' = 2, content = Some ''cooking recipes'',
             source_url = Some ''https://b.example'', metadata = None,
             similarity = 1, bm25_score = 0, combined_score = 1 / 2\<rparr>,
           \<lparr>id' = 3, content = Some ''python cooking'',
             source_url = Some ''https://a.example'', metadata = None,
             similarity = 3 / 5, bm25_score = 1 / 10, combined_score = 1 / 2\<rparr>,
           \<lparr>id' = 1, content = Some ''python python tutorial'',
             source_url = Some ''https://a.example'', metadata = None,
             similarity = 0, bm25_score = 1 / 5, combined_score = 2 / 5\<rparr>])
   \<and> hybrid_search_query example_pg example_documents (1, 0) ''python'' (3 / 10) 10 None
       (1 / 2) (1 / 5)
     (Inr [\<lparr>id' = 3, content = Some ''python cooking'',
             source_url = Some ''https://a.example'', metadata = None,
             similarity = 3 / 5, bm25_score = 1 / 10, combined_score = 1 / 2\<rparr>,
           \<lparr>id' = 2, content = Some ''cooking recipes'',
             source_url = Some ''https://b.example'', metadata = None,
             similarity = 1, bm25_score = 0, combined_score = 1 / 2\<rparr>,
           \<lparr>id' = 1, content = Some ''python python tutorial'',
             source_url = Some ''https://a.example'', metadata = None,
             similarity = 0, bm25_score = 1 / 5, combined_score = 2 / 5\<rparr>])"
proof (intro conjI)
  show "hybrid_search_query example_pg example_documents (1, 0) ''python'' (3 / 10) 10 None
       (1 / 2) (1 / 5)
     (Inr [\<lparr>id' = 2, content = Some ''cooking recipes'',
             source_url = Some ''https://b.example'', metadata = None,
             similarity = 1, bm25_score = 0, combined_score = 1 / 2\<rparr>,
           \<lparr>id' = 3, content = Some ''python cooking'',
             source_url = Some ''https://a.example'', metadata = None,
             similarity = 3 / 5, bm25_score = 1 / 10, combined_score = 1 / 2\<rparr>,
           \<lparr>id' = 1, content = Some ''python python tutorial'',
             source_url = Some ''https://a.example'', metadata = None,
             similarity = 0, bm25_score = 1 / 5, combined_score = 2 / 5\<rparr>])"
    by (rule hybrid_search_queryI [OF _ _ example_fused_tie order_limitI [OF refl], of _ 10])
      (simp_all add: limit_rows_def candidate_limit_def int4_mul_def)
  show "hybrid_search_query example_pg example_documents (1, 0) ''python'' (3 / 10) 10 None
       (1 / 2) (1 / 5)
     (Inr [\<lparr>id' = 3, content = Some ''python cooking'',
             source_url = Some ''https://a.example'', metadata = None,
             similarity = 3 / 5, bm25_score = 1 / 10, combined_score = 1 / 2\<rparr>,
           \<lparr>id' = 2, content = Some ''cooking recipes'',
             source_url = Some ''https://b.example'', metadata = None,
             similarity = 1, bm25_score = 0, combined_score = 1 / 2\<rparr>,
           \<lparr>id' = 1, content = Some ''python python tutorial'',
             source_url = Some ''https://a.example'', metadata = None,
             similarity = 0, bm25_score = 1 / 5, combined_score = 2 / 5\<rparr>])"
    by (rule hybrid_search_queryI [OF _ _ example_fused_tie order_limitI [of
        "[\<lparr>id' = 3, content = Some ''python cooking'',
            source_url = Some ''https://a.example'', metadata = None,
            similarity = 3 / 5, bm25_score = 1 / 10, combined_score = 1 / 2\<rparr>,
          \<lparr>id' = 2, content = Some ''cooking recipes'',
            source_url = Some ''https://b.example'', metadata = None,
            similarity = 1, bm25_score = 0, combined_score = 1 / 2\<rparr>,
          \<lparr>id' = 1, content = Some ''python python tutorial'',
            source_url = Some ''https://a.example'', metadata = None,
            similarity = 0, bm25_score = 1 / 5, combined_score = 2 / 5\<rparr>]"], of _ 10])
      (simp_all add: limit_rows_def candidate_limit_def int4_mul_def)
qed

text \<open>
  Claim C4, amended. The rows the query selects are in the order of non-increasing
  combined score, and no other key orders them. Two runs over the same fused candidates
  select rows with the same sequence of combined scores. Two runs of the query over the
  same table select the same sequence of rows when no two documents that pass the
  vector lookup are at the same distance of the query, no two documents that match
  lexically have the same rank, and no two fused candidates have the same combined
  score.
\<close>

theorem order_limit_deterministic:
  assumes "hybrid_search_query p documents qe qt thr mc flt vw kw (Inr rs)"
    and "hybrid_search_query p documents qe qt thr mc flt vw kw (Inr rs')"
  shows "sorted_wrt (\<lambda>a b. combined_score b \<le> combined_score a) rs
    \<and> (\<forall>cs. fused_candidates p documents qe qt thr (nat (mc * 2)) flt vw kw cs
            \<and> order_limit (nat mc) cs rs \<and> order_limit (nat mc) cs rs'
            \<longrightarrow> map combined_score rs = map combined_score rs')
    \<and> (\<forall>cs. inj_on fst (set (List.map_filter (vector_match p qe thr flt) documents))
            \<and> inj_on c_bm25 (set (List.map_filter (keyword_match p qt flt) documents))
            \<and> fused_candidates p documents qe qt thr (nat (mc * 2)) flt vw kw cs
            \<and> inj_on combined_score (set cs)
            \<longrightarrow> rs = rs')"
proof -
  let ?F = "fused_candidates p documents qe qt thr (nat (mc * 2)) flt vw kw"
  have 1: "sorted_wrt (\<lambda>a b. combined_score b \<le> combined_score a) rs"
    by (rule hybrid_search_query_top_k(2) [OF assms(1)])
  have 2: "map combined_score rs = map combined_score rs'"
    if "?F cs \<and> order_limit (nat mc) cs rs \<and> order_limit (nat mc) cs rs'" for cs
    using that by (blast intro: order_limit_scores)
  have 3: "rs = rs'"
    if h: "inj_on fst (set (List.map_filter (vector_match p qe thr flt) documents))
            \<and> inj_on c_bm25 (set (List.map_filter (keyword_match p qt flt) documents))
            \<and> ?F cs \<and> inj_on combined_score (set cs)" for cs
  proof -
    from h have v: "inj_on fst (set (List.map_filter (vector_match p qe thr flt) documents))"
      and k: "inj_on c_bm25 (set (List.map_filter (keyword_match p qt flt) documents))"
      and cs: "?F cs" and i: "inj_on combined_score (set cs)"
      by simp_all
    from assms(1) obtain cs1 where cs1: "?F cs1" "order_limit (nat mc) cs1 rs"
      by (auto simp: hybrid_search_query_Inr)
    from assms(2) obtain cs2 where cs2: "?F cs2" "order_limit (nat mc) cs2 rs'"
      by (auto simp: hybrid_search_query_Inr)
    from fused_candidates_unique [OF v k cs1(1) cs] fused_candidates_unique [OF v k cs2(1) cs]
    have "cs1 = cs" "cs2 = cs" by simp_all
    with cs1(2) cs2(2) i show ?thesis
      by (simp add: order_limit_unique)
  qed
  from 1 2 3 show ?thesis by blast
qed

theorem order_limit_deterministic_witness:
  "hybrid_search_query example_pg example_documents (1, 0) ''python'' (3 / 10) 10 None
       (7 / 10) (3 / 10)
     (Inr [\<lparr>id' = 3, content = Some ''python cooking'',
             source_url = Some ''https://a.example'', metadata = None,
             similarity = 3 / 5, bm25_score = 1 / 10, combined_score = 18 / 25\<rparr>,
           \<lparr>id' = 2, content = Some ''cooking recipes'',
             source_url = Some ''https://b.example'', metadata = None,
             similarity = 1, bm25_score = 0, combined_score = 7 / 10\<rparr>,
           \<lparr>id' = 1, content = Some ''python python tutorial'',
             source_url = Some ''https://a.example'', metadata = None,
             similarity = 0, bm25_score = 1 / 5, combined_score = 3 / 5\<rparr>])
   \<and> inj_on fst
       (set (List.map_filter (vector_match example_pg (1, 0) (3 / 10) None) example_documents))
   \<and> inj_on c_bm25
       (set (List.map_filter (keyword_match example_pg ''python'' None) example_documents))
   \<and> fused_candidates example_pg example_documents (1, 0) ''python'' (3 / 10) 20 None
       (7 / 10) (3 / 10)
     [\<lparr>id' = 2, content = Some ''cooking recipes'',
        source_url = Some ''https://b.example'', metadata = None,
        similarity = 1, bm25_score = 0, combined_score = 7 / 10\<rparr>,
      \<lparr>id' = 3, content = Some ''python cooking'',
        source_url = Some ''https://a.example'', metadata = None,
        similarity = 3 / 5, bm25_score = 1 / 10, combined_score = 18 / 25\<rparr>,
      \<lparr>id' = 1, content = Some ''python python tutorial'',
        source_url = Some ''https://a.example'', metadata = None,
        similarity = 0, bm25_score = 1 / 5, combined_score = 3 / 5\<rparr>]
   \<and> inj_on combined_score
       (set [\<lparr>id' = 2, content = Some ''cooking recipes'',
               source_url = Some ''https://b.example'', metadata = None,
               similarity = 1, bm25_score = 0, combined_score = 7 / 10\<rparr>,
             \<lparr>id' = 3, content = Some ''python cooking'',
               source_url = Some ''https://a.example'', metadata = None,
               similarity = 3 / 5, bm25_score = 1 / 10, combined_score = 18 / 25\<rparr>,
             \<lparr>id' = 1, content = Some ''python python tutorial'',
               source_url = Some ''https://a.example'', metadata = None,
               similarity = 0, bm25_score = 1 / 5, combined_score = 3 / 5\<rparr>])
   \<and> sorted_wrt (\<lambda>a b. combined_score b \<le> combined_score a)
       [\<lparr>id' = 3, content = Some ''python cooking'',
          source_url = Some ''https://a.example'', metadata = None,
          similarity = 3 / 5, bm25_score = 1 / 10, combined_score = 18 / 25\<rparr>,
        \<lparr>id' = 2, content = Some ''cooking recipes'',
          source_url = Some ''https://b.example'', metadata = None,
          similarity = 1, bm25_score = 0, combined_score = 7 / 10\<rparr>,
        \<lparr>id' = 1, content = Some ''python python tutorial'',
          source_url = Some ''https://a.example'', metadata = None,
          similarity = 0, bm25_score = 1 / 5, combined_score = 3 / 5\<rparr>]"
proof -
  note t = order_limit_deterministic [OF example_hybrid_query_10 example_hybrid_query_10]
  note s = conjunct1 [OF t]
  show ?thesis
  proof (intro conjI)
    show "inj_on fst
       (set (List.map_filter (vector_match example_pg (1, 0) (3 / 10) None) example_documents))"
      by (simp add: example_vector_matches)
    show "inj_on c_bm25
       (set (List.map_filter (keyword_match example_pg ''python'' None) example_documents))"
      by (simp add: example_keyword_matches)
    show "inj_on combined_score
       (set [\<lparr>id' = 2, content = Some ''cooking recipes'',
               source_url = Some ''https://b.example'', metadata = None,
               similarity = 1, bm25_score = 0, combined_score = 7 / 10\<rparr>,
             \<lparr>id' = 3, content = Some ''python cooking'',
               source_url = Some ''https://a.example'', metadata = None,
               similarity = 3 / 5, bm25_score = 1 / 10, combined_score = 18 / 25\<rparr>,
             \<lparr>id' = 1, content = Some ''python python tutorial'',
               source_url = Some ''https://a.example'', metadata = None,
               similarity = 0, bm25_score = 1 / 5, combined_score = 3 / 5\<rparr>])"
      by simp
  qed (rule example_hybrid_query_10 example_fused_20 s)+
qed

subsection \<open>The vector candidate lookup\<close>






subsection \<open>Queries without lexemes\<close>

text \<open>
  Claim C6. When the query text has no lexemes after normalization, the lexical lookup has
  no candidates, for every table: \<open>keyword_results\<close> is empty, the query of the keyword
  search selects no row, and every row the hybrid query selects is a vector candidate
  with the lexical score 0.
\<close>

theorem empty_query_no_lexical_candidates:
  assumes "plainto_tsquery p qt = []"
  shows "(keyword_results p documents qt flt n ks \<longleftrightarrow> ks = [])
    \<and> (keyword_search_query p documents qt mc flt (Inr ks') \<longleftrightarrow> 0 \<le> mc \<and> ks' = [])
    \<and> (\<forall>ks. keyword_search_documents p documents qt mc flt (Inr ks) \<longrightarrow> ks = [])
    \<and> (\<forall>rs. hybrid_search_query p documents qe qt thr mc flt vw kw (Inr rs)
              \<or> hybrid_search_documents p documents qe qt thr mc flt vw kw (Inr rs) \<longrightarrow>
          (\<forall>r\<in>set rs. bm25_score r = 0
             \<and> (\<exists>vs. vector_results p documents qe thr flt (nat (mc * 2)) vs
                    \<and> id' r \<in> c_id ` set vs)))"
proof -
  have none: "keyword_match p qt flt d = None" for d
    using assms by (simp add: keyword_match_def ts_match_def split: option.splits)
  have mf: "List.map_filter (keyword_match p qt flt) documents = []"
    by (induction documents) (simp_all add: none)
  have 1: "keyword_results p documents qt flt m ks \<longleftrightarrow> ks = []" for m ks
    by (auto simp: keyword_results.simps mf ordered_by_Nil)
  have 2: "keyword_search_query p documents qt mc flt (Inr ks') \<longleftrightarrow> 0 \<le> mc \<and> ks' = []"
    by (auto simp: keyword_search_query_Inr mf ordered_by_Nil)
  have 3: "ks = []" if "keyword_search_documents p documents qt mc flt (Inr ks)" for ks
    using that by (simp add: keyword_search_documents_iff)
  have 4: "bm25_score r = 0
             \<and> (\<exists>vs. vector_results p documents qe thr flt (nat (mc * 2)) vs
                    \<and> id' r \<in> c_id ` set vs)"
    if h: "hybrid_search_query p documents qe qt thr mc flt vw kw (Inr rs)
              \<or> hybrid_search_documents p documents qe qt thr mc flt vw kw (Inr rs)"
      and r: "r \<in> set rs" for rs r
  proof -
    from h have "hybrid_search_query p documents qe qt thr mc flt vw kw (Inr rs)"
      by (auto simp: hybrid_search_documents_def dest: return_query_Inr)
    from hybrid_search_query_top_k(3) [OF this]
    obtain cs where cs: "fused_candidates p documents qe qt thr (nat (mc * 2)) flt vw kw cs"
      and rs: "set rs \<subseteq> set cs"
      by (elim exE conjE)
    from cs obtain vs where vs: "vector_results p documents qe thr flt (nat (mc * 2)) vs"
      and c: "cs = combined vw kw vs []"
      by (auto simp: fused_candidates.simps 1)
    from r rs c have "r \<in> set (combined vw kw vs [])" by auto
    then have "bm25_score r = 0 \<and> id' r \<in> c_id ` set vs"
      by (auto simp: combined_def in_full_outer_join)
    with vs show ?thesis by blast
  qed
  from 1 2 3 4 show ?thesis by blast
qed

theorem empty_query_no_lexical_candidates_witness:
  "plainto_tsquery example_pg ''the a'' = []
   \<and> keyword_results example_pg example_documents ''the a'' None 20 []
   \<and> keyword_search_query example_pg example_documents ''the a'' 10 None (Inr [])"
proof -
  note t = empty_query_no_lexical_candidates [OF example_empty_query,
      of example_documents None 20 "[]" 10 "[]"]
  from conjunct1 [OF t]
  have 1: "keyword_results example_pg example_documents ''the a'' None 20 []"
    by (rule iffD2) (rule refl)
  from conjunct1 [OF conjunct2 [OF t]]
  have 2: "keyword_search_query example_pg example_documents ''the a'' 10 None (Inr [])"
    by (rule iffD2) simp
  from example_empty_query 1 2 show ?thesis by (intro conjI)
qed

subsection \<open>The weights\<close>






end
